theory Spec2Isabelle
  imports Main "HOL-Library.Sublist" "HOL-Library.Word"
begin

section \<open>JavaScript strings\<close>

text \<open>
  A JavaScript string is a sequence of UTF-16 code units; \<open>.length\<close> counts code units
  and a regular expression without the \<open>u\<close> flag matches code units. ASCII literals of
  the source are written \<open>js ''...''\<close>.
\<close>

type_synonym jschar = "16 word"
type_synonym jsstring = "jschar list"

definition js :: "string \<Rightarrow> jsstring" where
  "js s = map of_char s"

text \<open>
  \<open>s.replace(/pat/g, rep)\<close> for a pattern that is a literal, non-empty string and a
  replacement without \<open>$\<close>: scan from the left; at a match emit the replacement and go
  on behind the match, otherwise emit the code unit and advance by one.
\<close>

fun replaceAll :: "jsstring \<Rightarrow> jsstring \<Rightarrow> jsstring \<Rightarrow> jsstring" where
  "replaceAll pat rep [] = []"
| "replaceAll pat rep (c # cs) =
     (if pat \<noteq> [] \<and> prefix pat (c # cs)
      then rep @ replaceAll pat rep (drop (length pat - 1) cs)
      else c # replaceAll pat rep cs)"

text \<open>\<open>s.replace(pat, rep)\<close> with a string pattern: the first occurrence only.\<close>

fun replaceFirst :: "jsstring \<Rightarrow> jsstring \<Rightarrow> jsstring \<Rightarrow> jsstring" where
  "replaceFirst pat rep [] = (if pat = [] then rep else [])"
| "replaceFirst pat rep (c # cs) =
     (if prefix pat (c # cs) then rep @ drop (length pat) (c # cs)
      else c # replaceFirst pat rep cs)"

definition isDigit :: "jschar \<Rightarrow> bool" where
  "isDigit c \<longleftrightarrow> 0x30 \<le> c \<and> c \<le> 0x39"

text \<open>The class \<open>\w\<close>: letters, digits and the underscore.\<close>

definition isWordChar :: "jschar \<Rightarrow> bool" where
  "isWordChar c \<longleftrightarrow>
     (0x41 \<le> c \<and> c \<le> 0x5A) \<or> (0x61 \<le> c \<and> c \<le> 0x7A) \<or> isDigit c \<or> c = 0x5F"

text \<open>
  Matching under the \<open>i\<close> flag (without \<open>u\<close>): a code unit outside ASCII is never
  folded onto an ASCII one, so only the letters A to Z fold.
\<close>

definition toLowerAscii :: "jschar \<Rightarrow> jschar" where
  "toLowerAscii c = (if 0x41 \<le> c \<and> c \<le> 0x5A then c + 0x20 else c)"

definition prefixCI :: "jsstring \<Rightarrow> jsstring \<Rightarrow> bool" where
  "prefixCI pat s \<longleftrightarrow> prefix pat (map toLowerAscii s)"

section \<open>The Matrix message processor\<close>

definition MIN_NAME_LENGTH :: nat where "MIN_NAME_LENGTH = 2"
definition MAX_NAME_LENGTH :: nat where "MAX_NAME_LENGTH = 32"

definition MATRIX_TO_LINK :: jsstring where
  "MATRIX_TO_LINK = js ''https://matrix.to/#/''"

record MatrixMessageProcessorOpts =
  disableEveryone :: bool
  disableHere :: bool

text \<open>The constructor's defaults: both options are set.\<close>

definition defaultOpts :: MatrixMessageProcessorOpts where
  "defaultOpts = \<lparr>disableEveryone = True, disableHere = True\<rparr>"

record IMatrixMessage =
  body :: jsstring
  formatted_body :: "jsstring option"
  msgtype :: jsstring

text \<open>The profile argument of \<open>FormatMessage\<close>; only its display name is read.\<close>

record Profile =
  displayname :: "jsstring option"

record Emoji =
  emojiId :: jsstring
  emojiName :: jsstring
  emojiAnimated :: bool

text \<open>
  The guild's directory: \<open>members.get\<close> and \<open>channels.get\<close> are looked up by id,
  \<open>emojis.find\<close> returns the first emoji that satisfies the predicate.
\<close>

record Guild =
  members :: "jsstring set"
  channels :: "jsstring set"
  emojis :: "Emoji list"

text \<open>
  The parsed document (node-html-parser): a text node with its decoded text, an element
  with its lower-cased tag name (none for the root), its attributes, the value of its
  \<open>text\<close> getter and its children, or a node of any other type.
\<close>

datatype node =
    TextNode jsstring
  | HTMLElement "jsstring option" "jsstring \<rightharpoonup> jsstring" jsstring "node list"
  | OtherNode

text \<open>
  What the processor gets from outside: the HTML parser, and the emoji store's lookup
  by media URL (\<open>None\<close> when \<open>GetEmojiByMxc\<close> throws), which yields an emoji id.
\<close>

record Env =
  parse :: "jsstring \<Rightarrow> node"
  GetEmojiByMxc :: "jsstring \<Rightarrow> jsstring option"

text \<open>The five characters that are escaped, in the order of the source's array.\<close>

definition escapeChars :: "jschar list" where
  "escapeChars = [0x5C, 0x2A, 0x5F, 0x7E, 0x60]"

text \<open>The separator that the source writes behind the \<open>@\<close> is U+200A.\<close>

definition escapeDiscord :: "MatrixMessageProcessorOpts \<Rightarrow> jsstring \<Rightarrow> jsstring" where
  "escapeDiscord opts msg =
     (let msg1 = (if disableEveryone opts
                  then replaceAll (js ''@everyone'') (js ''@'' @ [0x200A] @ js ''everyone'') msg
                  else msg);
          msg2 = (if disableHere opts
                  then replaceAll (js ''@here'') (js ''@'' @ [0x200A] @ js ''here'') msg1
                  else msg1);
          msg3 = replaceAll (js ''@room'') (js ''@here'') msg2
      in fold (\<lambda>char m. replaceAll [char] [0x5C, char] m) escapeChars msg3)"

text \<open>\<open>text[0] !== "\n"\<close> holds for the empty string too.\<close>

definition ensureLeadingNewline :: "jsstring \<Rightarrow> jsstring" where
  "ensureLeadingNewline text = (case text of c # _ \<Rightarrow> if c = 0x0A then text else 0x0A # text
                                 | [] \<Rightarrow> [0x0A])"

text \<open>
  \<open>/^<code([^>]*)>/i\<close>: the string starts with \<open><code\<close>; the group is the run of code
  units up to the first \<open>>\<close>, which has to exist. The result is the group.
\<close>

definition matchCodeOpen :: "jsstring \<Rightarrow> jsstring option" where
  "matchCodeOpen text =
     (if prefixCI (js ''<code'') text
      then (let rest = drop 5 text; grp = takeWhile (\<lambda>c. c \<noteq> 0x3E) rest
            in if length grp < length rest then Some grp else None)
      else None)"

text \<open>\<open>text.replace(/<\/code>$/i, "")\<close>: a closing tag at the very end is removed.\<close>

definition stripCodeClose :: "jsstring \<Rightarrow> jsstring" where
  "stripCodeClose text =
     (if 7 \<le> length text \<and> map toLowerAscii (drop (length text - 7) text) = js ''</code>''
      then take (length text - 7) text else text)"

text \<open>\<open>/language-(\w*)/i\<close>: the leftmost occurrence, the group taken greedily.\<close>

fun matchLanguage :: "jsstring \<Rightarrow> jsstring option" where
  "matchLanguage [] = None"
| "matchLanguage (c # cs) =
     (if prefixCI (js ''language-'') (c # cs) then Some (takeWhile isWordChar (drop 9 (c # cs)))
      else matchLanguage cs)"

definition parsePreContent :: "jsstring \<Rightarrow> jsstring" where
  "parsePreContent text =
     (case matchCodeOpen text of
        None \<Rightarrow> ensureLeadingNewline text
      | Some grp \<Rightarrow>
          (let text1 = drop (5 + length grp + 1) text;
               text2 = stripCodeClose text1;
               text3 = ensureLeadingNewline text2
           in case matchLanguage grp of
                None \<Rightarrow> text3
              | Some language \<Rightarrow> language @ text3))"

text \<open>
  \<open>/^@_discord_([0-9]*)/\<close> and the member lookup; the empty string stands for
  "no mention".
\<close>

definition parseUser :: "Guild \<Rightarrow> jsstring \<Rightarrow> jsstring" where
  "parseUser guild ident =
     (if prefix (js ''@_discord_'') ident
      then (let m1 = takeWhile isDigit (drop 10 ident)
            in if m1 \<in> members guild then js ''<@'' @ m1 @ js ''>'' else [])
      else [])"

text \<open>\<open>/^#_discord_[0-9]*_([0-9]*)/\<close> and the channel lookup.\<close>

definition parseChannel :: "Guild \<Rightarrow> jsstring \<Rightarrow> jsstring" where
  "parseChannel guild ident =
     (if prefix (js ''#_discord_'') ident
      then (let rest = dropWhile isDigit (drop 10 ident)
            in case rest of
                 c # rest' \<Rightarrow>
                   if c = 0x5F
                   then (let m1 = takeWhile isDigit rest'
                         in if m1 \<in> channels guild then js ''<#'' @ m1 @ js ''>''
                            else MATRIX_TO_LINK @ ident)
                   else MATRIX_TO_LINK @ ident
               | [] \<Rightarrow> MATRIX_TO_LINK @ ident)
      else MATRIX_TO_LINK @ ident)"

text \<open>\<open>a || b || ""\<close> on attribute values: an absent or empty value is falsy.\<close>

definition truthy :: "jsstring option \<Rightarrow> bool" where
  "truthy v \<longleftrightarrow> (case v of None \<Rightarrow> False | Some s \<Rightarrow> s \<noteq> [])"

text \<open>\<open>/^:?(\w+):?/\<close>: an optional colon, then at least one word character.\<close>

definition matchEmoteName :: "jsstring \<Rightarrow> jsstring option" where
  "matchEmoteName name =
     (let rest = (case name of c # cs \<Rightarrow> if c = 0x3A then cs else name | [] \<Rightarrow> name);
          grp = takeWhile isWordChar rest
      in if grp = [] then None else Some grp)"

definition parseImageContent ::
    "Env \<Rightarrow> MatrixMessageProcessorOpts \<Rightarrow> Guild \<Rightarrow> (jsstring \<rightharpoonup> jsstring) \<Rightarrow> jsstring" where
  "parseImageContent env opts guild attrs =
     (let name = (if truthy (attrs (js ''alt'')) then the (attrs (js ''alt''))
                  else if truthy (attrs (js ''title'')) then the (attrs (js ''title''))
                  else []);
          emoji1 = (if truthy (attrs (js ''src''))
                    then (case GetEmojiByMxc env (the (attrs (js ''src''))) of
                            None \<Rightarrow> None
                          | Some i \<Rightarrow> find (\<lambda>e. emojiId e = i) (emojis guild))
                    else None);
          emoji2 = (case emoji1 of
                      Some e \<Rightarrow> Some e
                    | None \<Rightarrow>
                        (case matchEmoteName name of
                           None \<Rightarrow> None
                         | Some emojiName' \<Rightarrow> find (\<lambda>e. emojiName e = emojiName') (emojis guild)))
      in case emoji2 of
           None \<Rightarrow> escapeDiscord opts name
         | Some e \<Rightarrow>
             js ''<'' @ (if emojiAnimated e then js ''a'' else []) @ js '':'' @ emojiName e
               @ js '':'' @ emojiId e @ js ''>'')"

fun walkNode :: "Env \<Rightarrow> MatrixMessageProcessorOpts \<Rightarrow> Guild \<Rightarrow> node \<Rightarrow> jsstring"
and walkChildNodes :: "Env \<Rightarrow> MatrixMessageProcessorOpts \<Rightarrow> Guild \<Rightarrow> node list \<Rightarrow> jsstring"
and parsePillContent ::
    "Env \<Rightarrow> MatrixMessageProcessorOpts \<Rightarrow> Guild \<Rightarrow> (jsstring \<rightharpoonup> jsstring) \<Rightarrow> node list \<Rightarrow> jsstring"
where
  "walkNode env opts guild (TextNode text) = escapeDiscord opts text"
| "walkNode env opts guild OtherNode = []"
| "walkNode env opts guild (HTMLElement tagName attrs text childNodes) =
     (if tagName = Some (js ''em'') \<or> tagName = Some (js ''i'')
        then js ''*'' @ walkChildNodes env opts guild childNodes @ js ''*''
      else if tagName = Some (js ''strong'') \<or> tagName = Some (js ''b'')
        then js ''**'' @ walkChildNodes env opts guild childNodes @ js ''**''
      else if tagName = Some (js ''u'')
        then js ''__'' @ walkChildNodes env opts guild childNodes @ js ''__''
      else if tagName = Some (js ''del'')
        then js ''~~'' @ walkChildNodes env opts guild childNodes @ js ''~~''
      else if tagName = Some (js ''code'')
        then [0x60] @ text @ [0x60]
      else if tagName = Some (js ''pre'')
        then [0x60, 0x60, 0x60] @ parsePreContent text @ [0x60, 0x60, 0x60]
      else if tagName = Some (js ''a'')
        then parsePillContent env opts guild attrs childNodes
      else if tagName = Some (js ''img'')
        then parseImageContent env opts guild attrs
      else if tagName = Some (js ''br'')
        then [0x0A]
      else walkChildNodes env opts guild childNodes)"
| "walkChildNodes env opts guild [] = []"
| "walkChildNodes env opts guild (child # rest) =
     walkNode env opts guild child @ walkChildNodes env opts guild rest"
| "parsePillContent env opts guild attrs childNodes =
     (case attrs (js ''href'') of
        None \<Rightarrow> walkChildNodes env opts guild childNodes
      | Some href \<Rightarrow>
          if href = [] \<or> \<not> prefix MATRIX_TO_LINK href
          then walkChildNodes env opts guild childNodes
          else (let ident = replaceFirst MATRIX_TO_LINK [] href;
                    reply = (case ident of
                               [] \<Rightarrow> []
                             | c # _ \<Rightarrow>
                                 if c = 0x40 then parseUser guild ident
                                 else if c = 0x23 then parseChannel guild ident
                                 else [])
                in if reply = [] then walkChildNodes env opts guild childNodes else reply))"

text \<open>
  \<open>FormatMessage\<close>: a non-empty formatted body is parsed (wrapped in a \<open>div\<close>) and
  walked; otherwise the plain body is escaped. An emote is wrapped in underscores, with
  the display name in front when its length is within the bounds.
\<close>

definition FormatMessage ::
    "Env \<Rightarrow> MatrixMessageProcessorOpts \<Rightarrow> IMatrixMessage \<Rightarrow> Guild \<Rightarrow> Profile option \<Rightarrow> jsstring" where
  "FormatMessage env opts msg guild profile =
     (let reply = (if truthy (formatted_body msg)
                   then walkNode env opts guild
                          (parse env (js ''<div>'' @ the (formatted_body msg) @ js ''</div>''))
                   else escapeDiscord opts (body msg))
      in if msgtype msg = js ''m.emote''
         then (case profile of
                 None \<Rightarrow> js ''_'' @ reply @ js ''_''
               | Some p \<Rightarrow>
                   if truthy (displayname p)
                      \<and> MIN_NAME_LENGTH \<le> length (the (displayname p))
                      \<and> length (the (displayname p)) \<le> MAX_NAME_LENGTH
                   then js ''_'' @ the (displayname p) @ js '' '' @ reply @ js ''_''
                   else js ''_'' @ reply @ js ''_'')
         else reply)"


subsection \<open>Reference notions for the escaping\<close>

text \<open>
  The escaping as the specification words it: a backslash in front of each of the five
  reserved characters, everything else copied; and its removal, which deletes a backslash
  that stands in front of a reserved character.
\<close>

definition escapeChar :: "jschar \<Rightarrow> jsstring" where
  "escapeChar c = (if c \<in> set escapeChars then [0x5C, c] else [c])"

definition escapeMarkup :: "jsstring \<Rightarrow> jsstring" where
  "escapeMarkup s = concat (map escapeChar s)"

fun unescapeMarkup :: "jsstring \<Rightarrow> jsstring" where
  "unescapeMarkup (a # b # cs) =
     (if a = 0x5C \<and> b \<in> set escapeChars then b # unescapeMarkup cs
      else a # unescapeMarkup (b # cs))"
| "unescapeMarkup cs = cs"

text \<open>The message after the three broadcast replacements of \<open>escapeDiscord\<close>.\<close>

definition rewriteBroadcast :: "MatrixMessageProcessorOpts \<Rightarrow> jsstring \<Rightarrow> jsstring" where
  "rewriteBroadcast opts msg =
     replaceAll (js ''@room'') (js ''@here'')
       ((if disableHere opts then replaceAll (js ''@here'') (js ''@'' @ [0x200A] @ js ''here'') else id)
         ((if disableEveryone opts
           then replaceAll (js ''@everyone'') (js ''@'' @ [0x200A] @ js ''everyone'') else id) msg))"

text \<open>A body on which none of the broadcast replacements fires.\<close>

definition broadcastFree :: "MatrixMessageProcessorOpts \<Rightarrow> jsstring \<Rightarrow> bool" where
  "broadcastFree opts s \<longleftrightarrow>
     (disableEveryone opts \<longrightarrow> \<not> sublist (js ''@everyone'') s) \<and>
     (disableHere opts \<longrightarrow> \<not> sublist (js ''@here'') s) \<and>
     \<not> sublist (js ''@room'') s"

text \<open>
  For the proofs a string is cut at its \<open>@\<close> signs: \<open>atSegs s\<close> lists, for each
  \<open>@\<close> of \<open>s\<close>, the code units up to the next \<open>@\<close>.
\<close>

definition untilAt :: "jsstring \<Rightarrow> jsstring" where
  "untilAt s = takeWhile (\<lambda>c. c \<noteq> 0x40) s"

fun atSegs :: "jsstring \<Rightarrow> jsstring list" where
  "atSegs [] = []"
| "atSegs (c # cs) = (if c = 0x40 then untilAt cs # atSegs cs else atSegs cs)"

definition segReplace :: "jsstring \<Rightarrow> jsstring \<Rightarrow> jsstring \<Rightarrow> jsstring" where
  "segReplace p r seg = (if prefix p seg then r @ drop (length p) seg else seg)"

definition segRewrite :: "MatrixMessageProcessorOpts \<Rightarrow> jsstring \<Rightarrow> jsstring" where
  "segRewrite opts seg =
     segReplace (js ''room'') (js ''here'')
       ((if disableHere opts then segReplace (js ''here'') (0x200A # js ''here'') else id)
         ((if disableEveryone opts
           then segReplace (js ''everyone'') (0x200A # js ''everyone'') else id) seg))"

subsection \<open>Sample inputs\<close>

definition env0 :: Env where
  "env0 = \<lparr>parse = (\<lambda>_. OtherNode), GetEmojiByMxc = (\<lambda>_. None)\<rparr>"

definition guild0 :: Guild where
  "guild0 = \<lparr>members = {js ''12345''}, channels = {js ''12345''}, emojis = []\<rparr>"

definition msgEscaped :: IMatrixMessage where
  "msgEscaped = \<lparr>body = js ''wow '' @ [0x5C] @ js ''*this'' @ [0x5C] @ js ''* is cool'',
                  formatted_body = None, msgtype = js ''m.text''\<rparr>"

section \<open>The Matrix event processor\<close>

text \<open>
  What is thrown: an \<open>Error\<close> with its message, a Matrix error with its \<open>errcode\<close>,
  the TypeError of a property read on \<open>undefined\<close> or \<open>null\<close>, or the RangeError
  of a \<open>RichEmbed\<close> setter.
\<close>

datatype error = Error jsstring | MatrixError jsstring | TypeError | RangeError

record Info =
  info_size :: "int option"
  info_mimetype :: "jsstring option"

text \<open>
  The content of an event. \<open>in_reply_to\<close> is the event id under
  \<open>content["m.relates_to"]["m.in_reply_to"]\<close>, present when both objects are.
\<close>

record IMatrixEventContent =
  content_body :: "jsstring option"
  content_msgtype :: "jsstring option"
  content_url :: "jsstring option"
  content_info :: "Info option"
  in_reply_to :: "jsstring option"

record IMatrixEvent =
  event_id :: jsstring
  room_id :: jsstring
  sender :: jsstring
  event_type :: jsstring
  content :: "IMatrixEventContent option"
  origin_server_ts :: int

record UserProfile = Profile +
  avatar_url :: "jsstring option"

record EmbedAuthor =
  author_name :: jsstring
  author_icon_url :: "jsstring option"
  author_url :: "jsstring option"

record RichEmbed =
  embed_description :: "jsstring option"
  embed_author :: "EmbedAuthor option"
  embed_fields :: "(jsstring \<times> jsstring) list"
  embed_timestamp :: "int option"
  embed_image :: "jsstring option"

record IMatrixEventProcessorResult =
  messageEmbed :: RichEmbed
  replyEmbed :: "RichEmbed option"

record FileOptions =
  attachment :: "8 word list"
  file_name :: jsstring

datatype UserOrMember =
    User jsstring "jsstring option"
  | GuildMember jsstring "jsstring option"
  | NoUser

text \<open>
  The capabilities the event processor consumes; each may fail where the call it stands
  for can throw or reject. \<open>FormatMessageOf\<close> is the message processor's
  \<open>FormatMessage\<close> on the event's content with the parameters built from the event and
  the profile; \<open>GetUserProfileForRoom\<close> is the cached profile lookup, which catches its
  own failures; \<open>localpart\<close> is \<open>new MatrixUser(id).localpart\<close>; \<open>mime_extension\<close>
  is the result of \<open>mime.extension\<close> on a string, as it appears in a template string.
\<close>

record Bridge =
  getEvent :: "jsstring \<Rightarrow> jsstring \<Rightarrow> error + IMatrixEvent"
  GetUserProfileForRoom :: "jsstring \<Rightarrow> jsstring \<Rightarrow> UserProfile option"
  FormatMessageOf :: "IMatrixEvent \<Rightarrow> UserProfile option \<Rightarrow> error + jsstring"
  isRemoteUser :: "jsstring \<Rightarrow> bool"
  localpart :: "jsstring \<Rightarrow> jsstring"
  GetDiscordUserOrMember :: "jsstring \<Rightarrow> error + UserOrMember"
  mxcUrlToHttp :: "jsstring option \<Rightarrow> jsstring"
  mxcUrlToHttpSized :: "jsstring \<Rightarrow> nat \<Rightarrow> nat \<Rightarrow> jsstring"
  DownloadFile :: "jsstring \<Rightarrow> error + 8 word list"
  path_extname :: "jsstring \<Rightarrow> jsstring"
  path_basename :: "jsstring \<Rightarrow> jsstring"
  mime_extension :: "jsstring \<Rightarrow> jsstring"

definition MaxFileSize :: int where "MaxFileSize = 8000000"
definition DISCORD_AVATAR_WIDTH :: nat where "DISCORD_AVATAR_WIDTH = 128"
definition DISCORD_AVATAR_HEIGHT :: nat where "DISCORD_AVATAR_HEIGHT = 128"

text \<open>\<open>new Discord.RichEmbed()\<close> and the empty content \<open>{}\<close>.\<close>

definition newRichEmbed :: RichEmbed where
  "newRichEmbed = \<lparr>embed_description = None, embed_author = None, embed_fields = [],
                    embed_timestamp = None, embed_image = None\<rparr>"

definition emptyContent :: IMatrixEventContent where
  "emptyContent = \<lparr>content_body = None, content_msgtype = None, content_url = None,
                    content_info = None, in_reply_to = None\<rparr>"

text \<open>
  The setters of \<open>RichEmbed\<close> (discord.js 11) that check their argument:
  \<open>setDescription\<close> refuses more than 2048 code units; \<open>addField\<close> refuses a 26th
  field, a name of more than 256 and a value of more than 1024 code units, and a name or
  value without a non-blank character (\<open>/\S/\<close>).
\<close>

definition setDescription :: "RichEmbed \<Rightarrow> jsstring \<Rightarrow> error + RichEmbed" where
  "setDescription richEmbed d =
     (if 2048 < length d then Inl RangeError
      else Inr (richEmbed\<lparr>embed_description := Some d\<rparr>))"

definition isBlank :: "jschar \<Rightarrow> bool" where
  "isBlank c \<longleftrightarrow>
     c \<in> set [0x09, 0x0A, 0x0B, 0x0C, 0x0D, 0x20, 0xA0, 0x1680, 0x2028, 0x2029, 0x202F,
                0x205F, 0x3000, 0xFEFF]
     \<or> (0x2000 \<le> c \<and> c \<le> 0x200A)"

definition addField :: "RichEmbed \<Rightarrow> jsstring \<Rightarrow> jsstring \<Rightarrow> error + RichEmbed" where
  "addField richEmbed name value =
     (if 25 \<le> length (embed_fields richEmbed) then Inl RangeError
      else if 256 < length name then Inl RangeError
      else if list_all isBlank name then Inl RangeError
      else if 1024 < length value then Inl RangeError
      else if list_all isBlank value then Inl RangeError
      else Inr (richEmbed\<lparr>embed_fields := embed_fields richEmbed @ [(name, value)]\<rparr>))"

text \<open>\<open>embed.description += s\<close>\<close>

definition appendDescription :: "RichEmbed \<Rightarrow> jsstring \<Rightarrow> RichEmbed" where
  "appendDescription richEmbed s =
     richEmbed\<lparr>embed_description :=
       Some ((case embed_description richEmbed of None \<Rightarrow> js ''undefined'' | Some d \<Rightarrow> d) @ s)\<rparr>"

definition HasAttachment :: "IMatrixEvent \<Rightarrow> bool" where
  "HasAttachment event \<longleftrightarrow>
     (case content event of
        None \<Rightarrow> False
      | Some c \<Rightarrow> content_msgtype c \<in> set [Some (js ''m.image''), Some (js ''m.audio''),
                     Some (js ''m.video''), Some (js ''m.file''), Some (js ''m.sticker'')])
     \<or> event_type event = js ''m.sticker''"

text \<open>
  \<open>mime.extension\<close> (mime 1.x) starts with \<open>mimeType.match(...)\<close>: on an absent
  mime type it raises a TypeError.
\<close>

definition mimeExtension :: "Bridge \<Rightarrow> jsstring option \<Rightarrow> error + jsstring" where
  "mimeExtension env mimetype =
     (case mimetype of None \<Rightarrow> Inl TypeError | Some m \<Rightarrow> Inr (mime_extension env m))"

text \<open>Reading \<open>content.info.mimetype\<close> raises a TypeError when there is no \<open>info\<close>.\<close>

definition GetFilenameForMediaEvent :: "Bridge \<Rightarrow> IMatrixEventContent \<Rightarrow> error + jsstring" where
  "GetFilenameForMediaEvent env c =
     (if truthy (content_body c)
      then (if path_extname env (the (content_body c)) \<noteq> [] then Inr (the (content_body c))
            else (case content_info c of
                    None \<Rightarrow> Inl TypeError
                  | Some i \<Rightarrow>
                      (case mimeExtension env (info_mimetype i) of
                         Inl e \<Rightarrow> Inl e
                       | Inr ext \<Rightarrow> Inr (path_basename env (the (content_body c)) @ js ''.'' @ ext))))
      else (case content_info c of
              None \<Rightarrow> Inl TypeError
            | Some i \<Rightarrow>
                (case mimeExtension env (info_mimetype i) of
                   Inl e \<Rightarrow> Inl e
                 | Inr ext \<Rightarrow> Inr (js ''matrix-media.'' @ ext))))"

text \<open>The link reference \<open>[name](url)\<close>.\<close>

definition linkReference :: "jsstring \<Rightarrow> jsstring \<Rightarrow> jsstring" where
  "linkReference name url = js ''['' @ name @ js ''](''  @ url @ js '')''"

text \<open>
  \<open>HandleAttachment\<close> returns the empty string, a link reference or the downloaded
  file; a missing \<open>info\<close> is replaced by \<open>{size: 0}\<close> and a missing or zero size
  counts as 0. The file name is computed before the size is looked at, so a failure of
  \<open>GetFilenameForMediaEvent\<close> ends the function whatever the size; a failed download
  ends it too.
\<close>

definition HandleAttachment :: "Bridge \<Rightarrow> IMatrixEvent \<Rightarrow> error + (jsstring + FileOptions)" where
  "HandleAttachment env event =
     (if \<not> HasAttachment event then Inr (Inl [])
      else
        (let content0 = (case content event of None \<Rightarrow> emptyContent | Some c \<Rightarrow> c);
             info0 = (case content_info content0 of
                        None \<Rightarrow> \<lparr>info_size = Some 0, info_mimetype = None\<rparr>
                      | Some i \<Rightarrow> i);
             content1 = content0\<lparr>content_info := Some info0\<rparr>
         in if \<not> truthy (content_url content1) then Inr (Inl [])
            else
              (let size0 = (case info_size info0 of None \<Rightarrow> 0 | Some n \<Rightarrow> n);
                   url = mxcUrlToHttp env (content_url content1)
               in case GetFilenameForMediaEvent env content1 of
                    Inl e \<Rightarrow> Inl e
                  | Inr name \<Rightarrow>
                      if size0 < MaxFileSize
                      then (case DownloadFile env url of
                              Inl e \<Rightarrow> Inl e
                            | Inr downloaded \<Rightarrow>
                                if int (length downloaded) < MaxFileSize
                                then Inr (Inr \<lparr>attachment = downloaded, file_name = name\<rparr>)
                                else Inr (Inl (linkReference name url)))
                      else Inr (Inl (linkReference name url)))))"

text \<open>
  \<open>SetEmbedAuthor\<close>: a bridged Discord user is shown with the Discord name; otherwise
  the profile's display name when its length is within the bounds, else the sender id.
\<close>

definition SetEmbedAuthor ::
    "Bridge \<Rightarrow> RichEmbed \<Rightarrow> jsstring \<Rightarrow> UserProfile option \<Rightarrow> error + RichEmbed" where
  "SetEmbedAuthor env richEmbed sender' profile =
     (let fromProfile =
            (let displayName =
                   (case profile of
                      None \<Rightarrow> sender'
                    | Some p \<Rightarrow>
                        if truthy (displayname p)
                           \<and> MIN_NAME_LENGTH \<le> length (the (displayname p))
                           \<and> length (the (displayname p)) \<le> MAX_NAME_LENGTH
                        then the (displayname p) else sender');
                 avatarUrl =
                   (case profile of
                      None \<Rightarrow> None
                    | Some p \<Rightarrow>
                        if truthy (avatar_url p)
                        then Some (mxcUrlToHttpSized env (the (avatar_url p))
                                     DISCORD_AVATAR_WIDTH DISCORD_AVATAR_HEIGHT)
                        else None)
             in richEmbed\<lparr>embed_author := Some \<lparr>author_name = take MAX_NAME_LENGTH displayName,
                          author_icon_url = avatarUrl,
                          author_url = Some (js ''https://matrix.to/#/'' @ sender')\<rparr>\<rparr>)
      in if isRemoteUser env sender'
         then (case GetDiscordUserOrMember env
                      (drop (length (js ''_discord''))
                         (localpart env (replaceFirst (js ''@'') [] sender'))) of
                 Inl e \<Rightarrow> Inl e
               | Inr (User username avatarURL) \<Rightarrow>
                   Inr (richEmbed\<lparr>embed_author := Some \<lparr>author_name = username,
                          author_icon_url = avatarURL, author_url = None\<rparr>\<rparr>)
               | Inr (GuildMember displayName avatarURL) \<Rightarrow>
                   Inr (richEmbed\<lparr>embed_author := Some \<lparr>author_name = displayName,
                          author_icon_url = avatarURL, author_url = None\<rparr>\<rparr>)
               | Inr NoUser \<Rightarrow> Inr fromProfile)
         else Inr fromProfile)"

text \<open>
  The loop at the end of \<open>EventToEmbed\<close>: the first field named \<open>ping\<close> of the reply
  embed is moved into the description of the message embed.
\<close>

fun spliceFirstPing :: "(jsstring \<times> jsstring) list \<Rightarrow> (jsstring \<times> jsstring) list" where
  "spliceFirstPing [] = []"
| "spliceFirstPing (f # fs) = (if fst f = js ''ping'' then fs else f # spliceFirstPing fs)"

definition movePing :: "RichEmbed \<Rightarrow> RichEmbed option \<Rightarrow> IMatrixEventProcessorResult" where
  "movePing message reply =
     (case reply of
        None \<Rightarrow> \<lparr>messageEmbed = message, replyEmbed = None\<rparr>
      | Some r \<Rightarrow>
          (case find (\<lambda>f. fst f = js ''ping'') (embed_fields r) of
             None \<Rightarrow> \<lparr>messageEmbed = message, replyEmbed = Some r\<rparr>
           | Some f \<Rightarrow>
               \<lparr>messageEmbed = appendDescription message ([0x0A] @ js ''('' @ snd f @ js '')''),
                replyEmbed = Some (r\<lparr>embed_fields := spliceFirstPing (embed_fields r)\<rparr>)\<rparr>))"

text \<open>
  What \<open>GetEmbedForReply\<close> does with the embed of the source event: the ping field for
  a bridged Discord sender, the timestamp, and the attachment as image or link.
\<close>

definition decorateReply :: "Bridge \<Rightarrow> IMatrixEvent \<Rightarrow> RichEmbed \<Rightarrow> error + RichEmbed" where
  "decorateReply env sourceEvent richEmbed =
     (case (if isRemoteUser env (sender sourceEvent)
            then addField richEmbed (js ''ping'')
                   (js ''<@'' @
                      drop (length (js ''_discord''))
                        (localpart env (replaceFirst (js ''@'') [] (sender sourceEvent)))
                      @ js ''>'')
            else Inr richEmbed) of
        Inl e \<Rightarrow> Inl e
      | Inr embed1 \<Rightarrow>
          (let embed2 = embed1\<lparr>embed_timestamp := Some (origin_server_ts sourceEvent)\<rparr>
           in if HasAttachment sourceEvent
              then (case content sourceEvent of
                      None \<Rightarrow> Inl TypeError
                    | Some c \<Rightarrow>
                        (let url = mxcUrlToHttp env (content_url c)
                         in if content_msgtype c \<in> set [Some (js ''m.image''), Some (js ''m.sticker'')]
                               \<or> event_type sourceEvent = js ''m.sticker''
                            then Inr (embed2\<lparr>embed_image := Some url\<rparr>)
                            else (case GetFilenameForMediaEvent env c of
                                    Inl e \<Rightarrow> Inl e
                                  | Inr name \<Rightarrow>
                                      Inr (embed2\<lparr>embed_description :=
                                             Some (linkReference name url)\<rparr>))))
              else Inr embed2))"

text \<open>
  The embed that stands for a reply whose source could not be rendered; its description
  is short enough for \<open>setDescription\<close>.
\<close>

definition unknownReplyEmbed :: RichEmbed where
  "unknownReplyEmbed =
     newRichEmbed\<lparr>embed_description := Some (js ''Reply with unknown content''),
       embed_author := Some \<lparr>author_name = js ''Unknown'', author_icon_url = None,
                             author_url = None\<rparr>\<rparr>"

text \<open>
  \<open>EventToEmbed\<close> and \<open>GetEmbedForReply\<close> call each other. Both return, next to their
  result, the requests made to \<open>intent.getEvent\<close> (room id and event id) in order.
  The \<open>try\<close> block of \<open>GetEmbedForReply\<close> turns every failure inside it into the
  fallback embed.
\<close>

function EventToEmbed ::
    "Bridge \<Rightarrow> IMatrixEvent \<Rightarrow> bool
       \<Rightarrow> (jsstring \<times> jsstring) list \<times> (error + IMatrixEventProcessorResult)"
and GetEmbedForReply ::
    "Bridge \<Rightarrow> IMatrixEvent \<Rightarrow> (jsstring \<times> jsstring) list \<times> (error + RichEmbed option)"
where
  "EventToEmbed env event getReply =
     (let profile = GetUserProfileForRoom env (room_id event) (sender event)
      in case (if event_type event \<noteq> js ''m.sticker'' then FormatMessageOf env event profile
               else Inr []) of
           Inl e \<Rightarrow> ([], Inl e)
         | Inr body' \<Rightarrow>
             (case setDescription newRichEmbed body' of
                Inl e \<Rightarrow> ([], Inl e)
              | Inr described \<Rightarrow>
                  (case SetEmbedAuthor env described (sender event) profile of
                     Inl e \<Rightarrow> ([], Inl e)
                   | Inr message \<Rightarrow>
                       (if getReply
                        then (case GetEmbedForReply env event of
                                (fetched, Inl e) \<Rightarrow> (fetched, Inl e)
                              | (fetched, Inr reply) \<Rightarrow> (fetched, Inr (movePing message reply)))
                        else ([], Inr (movePing message None))))))"
| "GetEmbedForReply env event =
     (case in_reply_to (case content event of None \<Rightarrow> emptyContent | Some c \<Rightarrow> c) of
        None \<Rightarrow> ([], Inr None)
      | Some eventId \<Rightarrow>
          (case getEvent env (room_id event) eventId of
             Inl e \<Rightarrow> ([(room_id event, eventId)], Inr (Some unknownReplyEmbed))
           | Inr sourceEvent \<Rightarrow>
               (case content sourceEvent of
                  None \<Rightarrow> ([(room_id event, eventId)], Inr (Some unknownReplyEmbed))
                | Some c \<Rightarrow>
                    (let sourceEvent' = sourceEvent\<lparr>content := Some (c\<lparr>content_body :=
                           Some (if truthy (content_body c) then the (content_body c)
                                 else js ''Reply with unknown content'')\<rparr>)\<rparr>
                     in case EventToEmbed env sourceEvent' False of
                          (fetched, Inl e) \<Rightarrow>
                            ((room_id event, eventId) # fetched, Inr (Some unknownReplyEmbed))
                        | (fetched, Inr res) \<Rightarrow>
                            (case decorateReply env sourceEvent' (messageEmbed res) of
                               Inl e \<Rightarrow>
                                 ((room_id event, eventId) # fetched, Inr (Some unknownReplyEmbed))
                             | Inr replyEmbed' \<Rightarrow>
                                 ((room_id event, eventId) # fetched, Inr (Some replyEmbed')))))))"
  by pat_completeness auto
termination
  by (relation "measure (\<lambda>x. case x of Inl (_, _, getReply) \<Rightarrow> (if getReply then 2 else 0)
                                     | Inr _ \<Rightarrow> 1)") auto

declare EventToEmbed.simps [simp del] GetEmbedForReply.simps [simp del]


section \<open>The Discord bot\<close>

record DbEvent =
  MatrixId :: jsstring
  DiscordId :: jsstring
  GuildId :: jsstring
  ChannelId :: jsstring

record DiscordBridgeConfig =
  disableDeletionForwarding :: bool

record MessageAttachment =
  attachment_url :: jsstring
  attachment_filename :: jsstring
  attachment_filesize :: int
  attachment_width :: "int option"
  attachment_height :: "int option"

text \<open>A Discord message: its channel, guild, author and member are given by their ids.\<close>

record DiscordMessage =
  message_id :: jsstring
  message_channel :: jsstring
  message_guild :: jsstring
  message_author :: jsstring
  message_webhookID :: "jsstring option"
  message_content :: jsstring
  message_attachments :: "MessageAttachment list"

record RedactionEvent =
  redacts :: jsstring
  redaction_room_id :: jsstring
  redaction_sender :: jsstring

text \<open>What \<open>intent.sendMessage\<close> is given: a text message or an uploaded file.\<close>

datatype MatrixContent =
    TextMessage jsstring jsstring
  | FileMessage jsstring jsstring jsstring jsstring jsstring int "int option" "int option"

text \<open>
  The bot's own mutable state: the array \<open>sentMessages\<close>, in which
  \<open>delete sentMessages[i]\<close> leaves a hole (\<open>None\<close>), and the rows of the event store.
\<close>

record BotState =
  sentMessages :: "jsstring option list"
  store :: "DbEvent list"

text \<open>The requests the bot makes to its collaborators, recorded in the order of issue.\<close>

datatype effect =
    StoreGet jsstring
  | StoreInsert DbEvent
  | LookupRoom jsstring jsstring jsstring
  | FetchMessage jsstring jsstring
  | DeleteMessage jsstring jsstring
  | FetchWebhooks jsstring
  | MarkApproved jsstring bool
  | ChannelSendMessage jsstring jsstring
  | HandleDiscordCommand jsstring
  | OnUpdateUser jsstring
  | GetRoomIdsFromChannel jsstring
  | UploadContentFromUrl jsstring jsstring
  | FormatDiscordMessage jsstring
  | SendMessage jsstring MatrixContent
  | EnsureJoin jsstring jsstring

text \<open>
  The answers of the collaborators. \<open>matrixWebhook\<close> is the id of the last webhook
  named \<open>_matrix\<close> of a channel; \<open>sendMessageResult\<close> is told whether
  \<open>EnsureJoin\<close> has been run for the room before; \<open>None\<close> stands for a rejected
  promise where the source does not look at the reason.
\<close>

record Collaborators =
  botUserId :: jsstring
  matrixWebhook :: "jsstring \<Rightarrow> error + jsstring option"
  HasPendingRequest :: "jsstring \<Rightarrow> bool"
  markApprovedResult :: "jsstring \<Rightarrow> jsstring \<Rightarrow> bool \<Rightarrow> error + bool"
  handleDiscordCommandResult :: "DiscordMessage \<Rightarrow> error option"
  onUpdateUserResult :: "jsstring \<Rightarrow> bool"
  roomIdsFromChannel :: "jsstring \<Rightarrow> jsstring list option"
  uploadResult :: "jsstring \<Rightarrow> jsstring \<Rightarrow> jsstring option"
  mime_lookup :: "jsstring \<Rightarrow> jsstring"
  formatDiscordMessageResult :: "DiscordMessage \<Rightarrow> (jsstring \<times> jsstring) option"
  sendMessageResult :: "bool \<Rightarrow> jsstring \<Rightarrow> MatrixContent \<Rightarrow> error + jsstring"
  ensureJoinResult :: "jsstring \<Rightarrow> jsstring \<Rightarrow> bool"
  lookupRoomResult :: "jsstring \<Rightarrow> jsstring \<Rightarrow> jsstring \<Rightarrow> error + jsstring"
  fetchMessageResult :: "jsstring \<Rightarrow> jsstring \<Rightarrow> error option"

text \<open>\<open>Array.prototype.indexOf\<close>: the first index that holds the value; holes are skipped.\<close>

fun indexOf :: "jsstring option list \<Rightarrow> jsstring \<Rightarrow> nat option" where
  "indexOf [] x = None"
| "indexOf (y # ys) x = (if y = Some x then Some 0 else map_option Suc (indexOf ys x))"

text \<open>
  Modelled from the spec: the event store (\<open>DiscordStore\<close>, \<open>DbEvent\<close>), a lookup and
  insert service for the event-identifier mapping. \<open>store.Get(DbEvent, {matrix_id: k})\<close>
  yields the rows with that Matrix id, \<open>store.Insert\<close> adds a row.
\<close>

definition storeGetByMatrixId :: "BotState \<Rightarrow> jsstring \<Rightarrow> DbEvent list" where
  "storeGetByMatrixId st k = filter (\<lambda>row. MatrixId row = k) (store st)"

definition storeInsert :: "BotState \<Rightarrow> DbEvent \<Rightarrow> BotState" where
  "storeInsert st evt = st\<lparr>store := store st @ [evt]\<rparr>"

text \<open>
  The loop that closes \<open>ProcessMatrixMsgEvent\<close>: every message that Discord returned
  for the send is pushed onto \<open>sentMessages\<close> and inserted into the store. A failed send
  leaves \<open>null\<close> in the array, and reading its id raises.
\<close>

fun recordSentMessages ::
    "BotState \<Rightarrow> jsstring \<Rightarrow> jsstring \<Rightarrow> jsstring \<Rightarrow> jsstring \<Rightarrow> jsstring option list
       \<Rightarrow> BotState \<times> effect list \<times> error option" where
  "recordSentMessages st eventId roomId guildId channelId [] = (st, [], None)"
| "recordSentMessages st eventId roomId guildId channelId (None # ms) = (st, [], Some TypeError)"
| "recordSentMessages st eventId roomId guildId channelId (Some m # ms) =
     (let evt = \<lparr>MatrixId = eventId @ js '';'' @ roomId, DiscordId = m,
                 GuildId = guildId, ChannelId = channelId\<rparr>;
          st1 = storeInsert (st\<lparr>sentMessages := sentMessages st @ [Some m]\<rparr>) evt
      in case recordSentMessages st1 eventId roomId guildId channelId ms of
           (st2, effs, err) \<Rightarrow> (st2, StoreInsert evt # effs, err))"

text \<open>
  The loop of \<open>ProcessMatrixRedact\<close> over the rows found: a failed room lookup or
  message fetch ends the function with the error, a failed delete is logged only.
\<close>

fun redactRows :: "Collaborators \<Rightarrow> jsstring \<Rightarrow> DbEvent list \<Rightarrow> effect list \<times> error option" where
  "redactRows env sender' [] = ([], None)"
| "redactRows env sender' (row # rows) =
     (case lookupRoomResult env (GuildId row) (ChannelId row) sender' of
        Inl e \<Rightarrow> ([LookupRoom (GuildId row) (ChannelId row) sender'], Some e)
      | Inr chan \<Rightarrow>
          (case fetchMessageResult env chan (DiscordId row) of
             Some e \<Rightarrow> ([LookupRoom (GuildId row) (ChannelId row) sender',
                          FetchMessage chan (DiscordId row)], Some e)
           | None \<Rightarrow>
               (case redactRows env sender' rows of
                  (effs, err) \<Rightarrow>
                    ([LookupRoom (GuildId row) (ChannelId row) sender',
                      FetchMessage chan (DiscordId row),
                      DeleteMessage chan (DiscordId row)] @ effs, err))))"

definition ProcessMatrixRedact ::
    "Collaborators \<Rightarrow> DiscordBridgeConfig \<Rightarrow> BotState \<Rightarrow> RedactionEvent
       \<Rightarrow> BotState \<times> effect list \<times> error option" where
  "ProcessMatrixRedact env config st event =
     (if disableDeletionForwarding config then (st, [], None)
      else
        (let key = redacts event @ js '';'' @ redaction_room_id event;
             rows = storeGetByMatrixId st key
         in if rows = [] then (st, [StoreGet key], None)
            else (case redactRows env (redaction_sender event) rows of
                    (effs, err) \<Rightarrow> (st, StoreGet key # effs, err))))"

text \<open>The webhook check of \<open>OnMessage\<close>: is the message one of the bridge's own webhook?\<close>

definition ownWebhookMessage ::
    "Collaborators \<Rightarrow> DiscordMessage \<Rightarrow> effect list \<times> (error + bool)" where
  "ownWebhookMessage env msg =
     (case message_webhookID msg of
        None \<Rightarrow> ([], Inr False)
      | Some wid \<Rightarrow>
          (case matrixWebhook env (message_channel msg) of
             Inl e \<Rightarrow> ([FetchWebhooks (message_channel msg)], Inl e)
           | Inr None \<Rightarrow> ([FetchWebhooks (message_channel msg)], Inr False)
           | Inr (Some webhook) \<Rightarrow> ([FetchWebhooks (message_channel msg)], Inr (wid = webhook))))"

text \<open>The answer to \<open>!approve\<close> or \<open>!deny\<close> while a bridge request is pending.\<close>

definition answerBridgeRequest :: "Collaborators \<Rightarrow> DiscordMessage \<Rightarrow> effect list" where
  "answerBridgeRequest env msg =
     (let chan = message_channel msg;
          isApproved = (message_content msg = js ''!approve'')
      in MarkApproved chan isApproved #
         (case markApprovedResult env chan (message_author msg) isApproved of
            Inr successfullyBridged \<Rightarrow>
              [ChannelSendMessage chan
                 (if successfullyBridged \<and> isApproved
                  then js ''Thanks for your response! The matrix bridge has been approved''
                  else if successfullyBridged \<and> \<not> isApproved
                  then js ''Thanks for your response! The matrix bridge has been declined''
                  else js ''Thanks for your response, however the time for responses has expired - sorry!'')]
          | Inl (Error m) \<Rightarrow>
              (if m = js ''You do not have permission to manage webhooks in this channel''
               then [ChannelSendMessage chan m] else [])
          | Inl _ \<Rightarrow> []))"

text \<open>The row that records a Matrix event sent for a Discord message.\<close>

definition sentEvent :: "DiscordMessage \<Rightarrow> jsstring \<Rightarrow> jsstring \<Rightarrow> DbEvent" where
  "sentEvent msg room eventId =
     \<lparr>MatrixId = eventId @ js '';'' @ room, DiscordId = message_id msg,
      GuildId = message_guild msg, ChannelId = message_channel msg\<rparr>"

text \<open>The content sent for an uploaded attachment.\<close>

definition fileContent :: "Collaborators \<Rightarrow> MessageAttachment \<Rightarrow> jsstring \<Rightarrow> MatrixContent" where
  "fileContent env a mxcUrl =
     (let isImage = (case attachment_height a of None \<Rightarrow> False | Some h \<Rightarrow> h \<noteq> 0)
      in FileMessage (attachment_filename a)
           (if isImage then js ''m.image'' else js ''m.file'')
           mxcUrl (attachment_url a) (mime_lookup env (attachment_filename a))
           (attachment_filesize a)
           (if isImage then attachment_width a else None)
           (if isImage then attachment_height a else None))"

text \<open>
  A send that \<open>OnMessage\<close> starts: the content, whether a refused send is repeated
  after joining the room (the text path does, the file path does not), and the room.
  The sends of an attachment are started when its upload is answered, those of the text
  when the formatting is; each \<open>rooms.forEach\<close> starts its sends one after the other.
\<close>

type_synonym sendJob = "MatrixContent \<times> bool \<times> jsstring"

definition sendJobs :: "Collaborators \<Rightarrow> DiscordMessage \<Rightarrow> jsstring list \<Rightarrow> sendJob list" where
  "sendJobs env msg rooms =
     concat (map (\<lambda>a. case uploadResult env (attachment_url a) (attachment_filename a) of
                         None \<Rightarrow> []
                       | Some mxcUrl \<Rightarrow> map (\<lambda>room. (fileContent env a mxcUrl, False, room)) rooms)
               (message_attachments msg))
     @ (if message_content msg \<noteq> []
        then (case formatDiscordMessageResult env msg of
                None \<Rightarrow> []
              | Some (body', formattedBody) \<Rightarrow>
                  map (\<lambda>room. (TextMessage body' formattedBody, True, room)) rooms)
        else [])"

definition sendRequest :: "sendJob \<Rightarrow> effect" where
  "sendRequest job = (case job of (c, retry, room) \<Rightarrow> SendMessage room c)"

text \<open>
  What the answer to a send triggers: the insert of the mapping, or, on the text path
  and after \<open>M_FORBIDDEN\<close>, joining the room.
\<close>

definition firstAnswer :: "Collaborators \<Rightarrow> DiscordMessage \<Rightarrow> sendJob \<Rightarrow> effect list" where
  "firstAnswer env msg job =
     (case job of (c, retry, room) \<Rightarrow>
        (case sendMessageResult env False room c of
           Inr eventId \<Rightarrow> [StoreInsert (sentEvent msg room eventId)]
         | Inl e \<Rightarrow>
             if retry \<and> e = MatrixError (js ''M_FORBIDDEN'')
             then [EnsureJoin (message_author msg) room] else []))"

text \<open>The sends that are repeated: refused with \<open>M_FORBIDDEN\<close>, then joined.\<close>

definition repeated :: "Collaborators \<Rightarrow> DiscordMessage \<Rightarrow> sendJob \<Rightarrow> bool" where
  "repeated env msg job =
     (case job of (c, retry, room) \<Rightarrow>
        retry \<and> sendMessageResult env False room c = Inl (MatrixError (js ''M_FORBIDDEN''))
        \<and> ensureJoinResult env (message_author msg) room)"

definition secondAnswer :: "Collaborators \<Rightarrow> DiscordMessage \<Rightarrow> sendJob \<Rightarrow> effect list" where
  "secondAnswer env msg job =
     (case job of (c, retry, room) \<Rightarrow>
        (case sendMessageResult env True room c of
           Inr eventId \<Rightarrow> [StoreInsert (sentEvent msg room eventId)]
         | Inl e \<Rightarrow> []))"

text \<open>The rows of the inserts among some requests, in their order.\<close>

fun insertedRows :: "effect list \<Rightarrow> DbEvent list" where
  "insertedRows [] = []"
| "insertedRows (StoreInsert evt # effs) = evt # insertedRows effs"
| "insertedRows (eff # effs) = insertedRows effs"

text \<open>
  The last part of \<open>OnMessage\<close>: the user is updated, the bridged rooms are looked up,
  and attachments and text are sent into them. None of the sends is awaited, so the order
  of the requests depends on when the answers arrive; they are listed in the order in
  which the source issues them when the answers arrive in the order of the requests.
  First come the uploads and the formatting, all started before any answer is looked at;
  then the sends, by upload and room, the text last; then what the answer to each send
  triggers; then the repeated sends; then their inserts.
\<close>

definition relayToMatrix :: "Collaborators \<Rightarrow> BotState \<Rightarrow> DiscordMessage \<Rightarrow> BotState \<times> effect list" where
  "relayToMatrix env st msg =
     (if \<not> onUpdateUserResult env (message_author msg) then (st, [OnUpdateUser (message_author msg)])
      else
        (case roomIdsFromChannel env (message_channel msg) of
           None \<Rightarrow> (st, [OnUpdateUser (message_author msg), GetRoomIdsFromChannel (message_channel msg)])
         | Some rooms \<Rightarrow>
             (let jobs = sendJobs env msg rooms;
                  again = filter (repeated env msg) jobs;
                  effs = [OnUpdateUser (message_author msg),
                          GetRoomIdsFromChannel (message_channel msg)]
                       @ map (\<lambda>a. UploadContentFromUrl (attachment_url a) (attachment_filename a))
                           (message_attachments msg)
                       @ (if message_content msg \<noteq> [] then [FormatDiscordMessage (message_id msg)]
                          else [])
                       @ map sendRequest jobs
                       @ concat (map (firstAnswer env msg) jobs)
                       @ map sendRequest again
                       @ concat (map (secondAnswer env msg) again)
              in (foldl storeInsert st (insertedRows effs), effs))))"

text \<open>
  \<open>OnMessage\<close>: a message whose id is in \<open>sentMessages\<close> is the echo of a message the
  bridge has sent itself; its entry is deleted and nothing else happens.
\<close>

definition OnMessage ::
    "Collaborators \<Rightarrow> BotState \<Rightarrow> DiscordMessage \<Rightarrow> BotState \<times> effect list \<times> error option" where
  "OnMessage env st msg =
     (case indexOf (sentMessages st) (message_id msg) of
        Some indexOfMsg \<Rightarrow>
          (st\<lparr>sentMessages := (sentMessages st)[indexOfMsg := None]\<rparr>, [], None)
      | None \<Rightarrow>
          if message_author msg = botUserId env then (st, [], None)
          else
            (case ownWebhookMessage env msg of
               (effs, Inl e) \<Rightarrow> (st, effs, Some e)
             | (effs, Inr True) \<Rightarrow> (st, effs, None)
             | (effs, Inr False) \<Rightarrow>
                 if (message_content msg = js ''!approve'' \<or> message_content msg = js ''!deny'')
                    \<and> HasPendingRequest env (message_channel msg)
                 then (st, effs @ answerBridgeRequest env msg, None)
                 else if prefix (js ''!matrix'') (message_content msg)
                 then (st, effs @ [HandleDiscordCommand (message_id msg)],
                       handleDiscordCommandResult env msg)
                 else (case relayToMatrix env st msg of
                         (st', effs') \<Rightarrow> (st', effs @ effs', None))))"

subsection \<open>Notions used to state the properties of the event processor\<close>

text \<open>
  The declared size of a media event (an absent \<open>info\<close> or size counts as 0) and the
  event id an event declares to reply to.
\<close>

definition declaredSize :: "IMatrixEventContent \<Rightarrow> int" where
  "declaredSize c = (case content_info c of
                       None \<Rightarrow> 0
                     | Some i \<Rightarrow> (case info_size i of None \<Rightarrow> 0 | Some n \<Rightarrow> n))"

definition replyTarget :: "IMatrixEvent \<Rightarrow> jsstring option" where
  "replyTarget event = in_reply_to (case content event of None \<Rightarrow> emptyContent | Some c \<Rightarrow> c)"

text \<open>
  The rendering of an event on its own, without any reply: the description from
  \<open>FormatMessage\<close> and the author. It makes no request to \<open>intent.getEvent\<close>.
\<close>

definition renderMessage :: "Bridge \<Rightarrow> IMatrixEvent \<Rightarrow> error + RichEmbed" where
  "renderMessage env event =
     (let profile = GetUserProfileForRoom env (room_id event) (sender event)
      in case (if event_type event \<noteq> js ''m.sticker'' then FormatMessageOf env event profile
               else Inr []) of
           Inl e \<Rightarrow> Inl e
         | Inr body' \<Rightarrow>
             (case setDescription newRichEmbed body' of
                Inl e \<Rightarrow> Inl e
              | Inr described \<Rightarrow> SetEmbedAuthor env described (sender event) profile))"

text \<open>
  The source event as \<open>GetEmbedForReply\<close> hands it on: an absent or empty body is
  replaced by \<open>Reply with unknown content\<close>.
\<close>

definition withReplyBody :: "IMatrixEvent \<Rightarrow> IMatrixEventContent \<Rightarrow> IMatrixEvent" where
  "withReplyBody sourceEvent c =
     sourceEvent\<lparr>content := Some (c\<lparr>content_body :=
        Some (if truthy (content_body c) then the (content_body c)
              else js ''Reply with unknown content'')\<rparr>)\<rparr>"

text \<open>
  One level of quoted context: the event with the given id is fetched, rendered on its
  own and decorated; whatever fails gives the fallback embed. The reply that the fetched
  event may declare itself plays no part.
\<close>

definition quotedEmbed :: "Bridge \<Rightarrow> jsstring \<Rightarrow> jsstring \<Rightarrow> RichEmbed" where
  "quotedEmbed env roomId eventId =
     (case getEvent env roomId eventId of
        Inl e \<Rightarrow> unknownReplyEmbed
      | Inr sourceEvent \<Rightarrow>
          (case content sourceEvent of
             None \<Rightarrow> unknownReplyEmbed
           | Some c \<Rightarrow>
               (case renderMessage env (withReplyBody sourceEvent c) of
                  Inl e \<Rightarrow> unknownReplyEmbed
                | Inr message \<Rightarrow>
                    (case decorateReply env (withReplyBody sourceEvent c) message of
                       Inl e \<Rightarrow> unknownReplyEmbed
                     | Inr replyEmbed' \<Rightarrow> replyEmbed'))))"

section \<open>Sample inputs\<close>

text \<open>
  A room with a chain of replies (\<open>$a\<close> answers \<open>$b\<close>, \<open>$b\<close> answers \<open>$c\<close>), a
  reply to an event that cannot be fetched, media events, and a bridge whose
  collaborators answer in the simplest way.
\<close>

definition sampleRoom :: jsstring where
  "sampleRoom = js ''!room:localhost''"

definition textEvent :: "string \<Rightarrow> string \<Rightarrow> string \<Rightarrow> jsstring option \<Rightarrow> IMatrixEvent" where
  "textEvent eid who text reply =
     \<lparr>event_id = js eid, room_id = sampleRoom, sender = js who,
      event_type = js ''m.room.message'',
      content = Some \<lparr>content_body = Some (js text), content_msgtype = Some (js ''m.text''),
                       content_url = None, content_info = None, in_reply_to = reply\<rparr>,
      origin_server_ts = 1000\<rparr>"

definition eventC :: IMatrixEvent where
  "eventC = textEvent ''$c'' ''@carol:localhost'' ''first'' None"

definition eventB :: IMatrixEvent where
  "eventB = textEvent ''$b'' ''@bob:localhost'' ''second'' (Some (js ''$c''))"

definition eventA :: IMatrixEvent where
  "eventA = textEvent ''$a'' ''@alice:localhost'' ''third'' (Some (js ''$b''))"

definition eventLost :: IMatrixEvent where
  "eventLost = textEvent ''$d'' ''@alice:localhost'' ''fourth'' (Some (js ''$gone''))"

definition mediaEvent :: "string \<Rightarrow> int option \<Rightarrow> IMatrixEvent" where
  "mediaEvent mxc declared =
     \<lparr>event_id = js ''$m'', room_id = sampleRoom, sender = js ''@alice:localhost'',
      event_type = js ''m.room.message'',
      content = Some \<lparr>content_body = Some (js ''cat.png''), content_msgtype = Some (js ''m.image''),
                       content_url = Some (js mxc),
                       content_info = Some \<lparr>info_size = declared,
                                              info_mimetype = Some (js ''image/png'')\<rparr>,
                       in_reply_to = None\<rparr>,
      origin_server_ts = 1000\<rparr>"

text \<open>An image named \<open>cat\<close>, declared with 9000000 bytes and without a mime type.\<close>

definition oversizedCatContent :: IMatrixEventContent where
  "oversizedCatContent =
     \<lparr>content_body = Some (js ''cat''), content_msgtype = Some (js ''m.image''),
      content_url = Some (js ''mxc://localhost/cat''),
      content_info = Some \<lparr>info_size = Some 9000000, info_mimetype = None\<rparr>,
      in_reply_to = None\<rparr>"

definition oversizedCat :: IMatrixEvent where
  "oversizedCat =
     \<lparr>event_id = js ''$n'', room_id = sampleRoom, sender = js ''@alice:localhost'',
      event_type = js ''m.room.message'', content = Some oversizedCatContent,
      origin_server_ts = 1000\<rparr>"

definition bigPayload :: "8 word list" where
  "bigPayload = replicate 8000000 0"

definition bridge0 :: Bridge where
  "bridge0 = \<lparr>
     getEvent = (\<lambda>room eid. if room = sampleRoom \<and> eid = js ''$b'' then Inr eventB
                             else if room = sampleRoom \<and> eid = js ''$c'' then Inr eventC
                             else Inl (Error (js ''M_NOT_FOUND''))),
     GetUserProfileForRoom = (\<lambda>_ _. None),
     FormatMessageOf = (\<lambda>event _. case content event of
                                     None \<Rightarrow> Inl TypeError
                                   | Some c \<Rightarrow> Inr (case content_body c of None \<Rightarrow> [] | Some b \<Rightarrow> b)),
     isRemoteUser = (\<lambda>_. False),
     localpart = (\<lambda>u. takeWhile (\<lambda>c. c \<noteq> 0x3A) (drop 1 u)),
     GetDiscordUserOrMember = (\<lambda>_. Inr NoUser),
     mxcUrlToHttp = (\<lambda>u. js ''https://hs/'' @ (case u of None \<Rightarrow> [] | Some x \<Rightarrow> x)),
     mxcUrlToHttpSized = (\<lambda>u _ _. js ''https://hs/'' @ u),
     DownloadFile = (\<lambda>u. if u = js ''https://hs/small'' then Inr [1, 2, 3]
                          else if u = js ''https://hs/big'' then Inr bigPayload
                          else Inl (Error (js ''404''))),
     path_extname = (\<lambda>b. if b = js ''cat'' then [] else js ''.png''),
     path_basename = (\<lambda>b. b),
     mime_extension = (\<lambda>_. js ''png'')\<rparr>"

definition state0 :: BotState where
  "state0 = \<lparr>sentMessages = [], store = []\<rparr>"

definition collab0 :: Collaborators where
  "collab0 = \<lparr>botUserId = js ''1'',
     matrixWebhook = (\<lambda>_. Inr None),
     HasPendingRequest = (\<lambda>_. False),
     markApprovedResult = (\<lambda>_ _ _. Inr True),
     handleDiscordCommandResult = (\<lambda>_. None),
     onUpdateUserResult = (\<lambda>_. True),
     roomIdsFromChannel = (\<lambda>_. Some [js ''!room:localhost'']),
     uploadResult = (\<lambda>_ _. None),
     mime_lookup = (\<lambda>_. js ''image/png''),
     formatDiscordMessageResult = (\<lambda>m. Some (message_content m, message_content m)),
     sendMessageResult = (\<lambda>_ _ _. Inr (js ''$sent'')),
     ensureJoinResult = (\<lambda>_ _. True),
     lookupRoomResult = (\<lambda>_ c _. Inr c),
     fetchMessageResult = (\<lambda>_ _. None)\<rparr>"

definition echoMessage :: DiscordMessage where
  "echoMessage = \<lparr>message_id = js ''111'', message_channel = js ''321'',
     message_guild = js ''123'', message_author = js ''999'', message_webhookID = None,
     message_content = js ''hello'', message_attachments = []\<rparr>"

definition redactConfig :: DiscordBridgeConfig where
  "redactConfig = \<lparr>disableDeletionForwarding = True\<rparr>"

definition mappedState :: BotState where
  "mappedState = \<lparr>sentMessages = [],
     store = [\<lparr>MatrixId = js ''$ev;!room:localhost'', DiscordId = js ''111'',
                GuildId = js ''123'', ChannelId = js ''321''\<rparr>]\<rparr>"

definition redaction0 :: RedactionEvent where
  "redaction0 = \<lparr>redacts = js ''$ev'', redaction_room_id = js ''!room:localhost'',
                  redaction_sender = js ''@alice:localhost''\<rparr>"

section \<open>Properties of the message processor\<close>

subsection \<open>The escaping loop\<close>

lemma replaceAll_single:
  "replaceAll [ch] rep s = concat (map (\<lambda>c. if c = ch then rep else [c]) s)"
  by (induction s) auto

lemma escapeMarkup_Nil [simp]: "escapeMarkup [] = []"
  by (simp add: escapeMarkup_def)

lemma escapeMarkup_Cons [simp]: "escapeMarkup (c # s) = escapeChar c @ escapeMarkup s"
  by (simp add: escapeMarkup_def)


lemma fold_escape:
  "fold (\<lambda>char m. replaceAll [char] [0x5C, char] m) escapeChars s = escapeMarkup s"
  by (induction s) (auto simp: escapeChars_def replaceAll_single escapeChar_def)

lemma unescape_escape: "unescapeMarkup (escapeMarkup s) = s"
proof (induction s)
  case Nil
  show ?case by simp
next
  case (Cons c s)
  show ?case
  proof (cases "c \<in> set escapeChars")
    case True
    then show ?thesis using Cons by (simp add: escapeChar_def)
  next
    case False
    then have "c \<noteq> 0x5C" by (auto simp: escapeChars_def)
    then show ?thesis using Cons False
      by (cases "escapeMarkup s") (simp_all add: escapeChar_def)
  qed
qed

lemma length_escapeMarkup:
  "length (escapeMarkup s) = length s + length (filter (\<lambda>c. c \<in> set escapeChars) s)"
  by (induction s) (simp_all add: escapeChar_def)

lemma backslashes_escapeMarkup:
  "length (filter (\<lambda>c. c = 0x5C) (escapeMarkup s))
     = length (filter (\<lambda>c. c = 0x5C) s) + length (filter (\<lambda>c. c \<in> set escapeChars) s)"
  by (induction s) (auto simp: escapeChar_def escapeChars_def)

lemma escapeMarkup_id: "set s \<inter> set escapeChars = {} \<Longrightarrow> escapeMarkup s = s"
  by (induction s) (auto simp: escapeChar_def)

lemma escapeMarkup_reserved:
  "set s \<inter> set escapeChars \<noteq> {} \<Longrightarrow> set (escapeMarkup s) \<inter> set escapeChars \<noteq> {}"
  by (induction s) (auto simp: escapeChar_def escapeChars_def)

lemma escape_twice_iff:
  "escapeMarkup (escapeMarkup s) = escapeMarkup s \<longleftrightarrow> set s \<inter> set escapeChars = {}"
proof
  assume eq: "escapeMarkup (escapeMarkup s) = escapeMarkup s"
  show "set s \<inter> set escapeChars = {}"
  proof (rule ccontr)
    assume "set s \<inter> set escapeChars \<noteq> {}"
    then have "set (escapeMarkup s) \<inter> set escapeChars \<noteq> {}" by (rule escapeMarkup_reserved)
    then have "filter (\<lambda>c. c \<in> set escapeChars) (escapeMarkup s) \<noteq> []"
      by (auto simp: filter_empty_conv)
    then have "length (escapeMarkup (escapeMarkup s)) > length (escapeMarkup s)"
      by (simp add: length_escapeMarkup[of "escapeMarkup s"])
    with eq show False by simp
  qed
next
  assume "set s \<inter> set escapeChars = {}"
  then show "escapeMarkup (escapeMarkup s) = escapeMarkup s" by (simp add: escapeMarkup_id)
qed

lemma replaceAll_absent: "\<not> sublist pat s \<Longrightarrow> replaceAll pat rep s = s"
  by (induction s) (auto simp: sublist_Cons_right)

lemma escape_spec_example:
  "escapeDiscord defaultOpts (js ''hello *world* how __are__ you?'')
     = js ''hello '' @ [0x5C] @ js ''*world'' @ [0x5C] @ js ''* how '' @ [0x5C] @ js ''_''
       @ [0x5C] @ js ''_are'' @ [0x5C] @ js ''_'' @ [0x5C] @ js ''_ you?''"
  by (simp add: escapeDiscord_def defaultOpts_def escapeChars_def js_def)

subsection \<open>Broadcast tokens, segment by segment\<close>

lemma untilAt_append_noat: "0x40 \<notin> set r \<Longrightarrow> untilAt (r @ x) = r @ untilAt x"
  by (induction r) (auto simp: untilAt_def)

lemma atSegs_append_noat: "0x40 \<notin> set r \<Longrightarrow> atSegs (r @ x) = atSegs x"
  by (induction r) auto

lemma prefix_untilAt: "0x40 \<notin> set q \<Longrightarrow> prefix q (untilAt s) = prefix q s"
proof (induction q arbitrary: s)
  case Nil
  show ?case by simp
next
  case (Cons a q)
  then show ?case by (cases s) (auto simp: untilAt_def)
qed

lemma sublist_atSegs:
  "0x40 \<notin> set q \<Longrightarrow> sublist (0x40 # q) s \<longleftrightarrow> (\<exists>seg \<in> set (atSegs s). prefix q seg)"
  by (induction s) (auto simp: sublist_Cons_right prefix_untilAt)

lemma untilAt_replaceAll: "untilAt (replaceAll (0x40 # p) (0x40 # r) s) = untilAt s"
  by (induction s) (auto simp: untilAt_def)

lemma atSegs_replaceAll:
  assumes "0x40 \<notin> set p" and "0x40 \<notin> set r"
  shows "atSegs (replaceAll (0x40 # p) (0x40 # r) s) = map (segReplace p r) (atSegs s)"
proof (induction "0x40 # p" "0x40 # r" s rule: replaceAll.induct)
  case 1
  show ?case by simp
next
  case (2 c cs)
  show ?case
  proof (cases "prefix (0x40 # p) (c # cs)")
    case True
    then have c: "c = 0x40" and "prefix p cs" by simp_all
    then obtain zs where cs: "cs = p @ zs" by (auto simp: prefix_def)
    have ih: "atSegs (replaceAll (0x40 # p) (0x40 # r) zs) = map (segReplace p r) (atSegs zs)"
      using 2(1) True cs by simp
    have "replaceAll (0x40 # p) (0x40 # r) (c # cs)
            = 0x40 # r @ replaceAll (0x40 # p) (0x40 # r) zs"
      using True cs by simp
    then have "atSegs (replaceAll (0x40 # p) (0x40 # r) (c # cs))
            = (r @ untilAt zs) # map (segReplace p r) (atSegs zs)"
      using assms ih by (simp add: untilAt_append_noat atSegs_append_noat untilAt_replaceAll)
    moreover have "map (segReplace p r) (atSegs (c # cs))
            = (r @ untilAt zs) # map (segReplace p r) (atSegs zs)"
      using assms c cs by (simp add: untilAt_append_noat atSegs_append_noat segReplace_def)
    ultimately show ?thesis by simp
  next
    case False
    then have ih: "atSegs (replaceAll (0x40 # p) (0x40 # r) cs) = map (segReplace p r) (atSegs cs)"
      using 2(2) by simp
    show ?thesis
    proof (cases "c = 0x40")
      case True
      with False have "\<not> prefix p cs" by simp
      then have "\<not> prefix p (untilAt cs)" using assms by (simp add: prefix_untilAt)
      then show ?thesis using False True ih
        by (simp add: untilAt_replaceAll segReplace_def)
    next
      case c: False
      then show ?thesis using False ih by simp
    qed
  qed
qed

lemma at_not_reserved: "(0x40::jschar) \<notin> set escapeChars"
  by (simp add: escapeChars_def)

lemma untilAt_escapeMarkup: "untilAt (escapeMarkup s) = escapeMarkup (untilAt s)"
  by (induction s) (auto simp: untilAt_def escapeChar_def escapeChars_def)

lemma atSegs_escapeMarkup: "atSegs (escapeMarkup s) = map escapeMarkup (atSegs s)"
  by (induction s) (auto simp: escapeChar_def escapeChars_def untilAt_escapeMarkup)

lemma prefix_escapeMarkup:
  "set q \<inter> set escapeChars = {} \<Longrightarrow> prefix q (escapeMarkup s) = prefix q s"
proof (induction q arbitrary: s)
  case Nil
  show ?case by simp
next
  case (Cons a q)
  then have a: "a \<notin> set escapeChars" and q: "set q \<inter> set escapeChars = {}" by auto
  from a have a': "a \<noteq> 0x5C" by (auto simp: escapeChars_def)
  show ?case
  proof (cases s)
    case Nil
    then show ?thesis by simp
  next
    case (Cons c s')
    then show ?thesis using Cons.IH[OF q, of s'] a a' by (auto simp: escapeChar_def)
  qed
qed

lemma escapeDiscord_eq: "escapeDiscord opts msg = escapeMarkup (rewriteBroadcast opts msg)"
  by (simp add: escapeDiscord_def rewriteBroadcast_def fold_escape Let_def)

lemma rewriteBroadcast_free: "broadcastFree opts s \<Longrightarrow> rewriteBroadcast opts s = s"
  by (simp add: broadcastFree_def rewriteBroadcast_def replaceAll_absent)

lemma tok_everyone: "js ''@everyone'' = 0x40 # js ''everyone''"
  and tok_here: "js ''@here'' = 0x40 # js ''here''"
  and tok_room: "js ''@room'' = 0x40 # js ''room''"
  and tok_at: "js ''@'' = [0x40]"
  by (simp_all add: js_def)

lemma noat: "0x40 \<notin> set (js ''everyone'')" "0x40 \<notin> set (js ''here'')" "0x40 \<notin> set (js ''room'')"
  "0x40 \<notin> set (0x200A # js ''everyone'')" "0x40 \<notin> set (0x200A # js ''here'')"
  by (simp_all add: js_def)

lemma nores: "set (js ''everyone'') \<inter> set escapeChars = {}"
  "set (js ''here'') \<inter> set escapeChars = {}" "set (js ''room'') \<inter> set escapeChars = {}"
  by (simp_all add: js_def escapeChars_def)

lemma atSegs_rewriteBroadcast:
  "atSegs (rewriteBroadcast opts s) = map (segRewrite opts) (atSegs s)"
  by (simp add: rewriteBroadcast_def segRewrite_def tok_everyone tok_here tok_room tok_at
      atSegs_replaceAll noat comp_def)

lemma sublist_escapeMarkup:
  "0x40 \<notin> set q \<Longrightarrow> set q \<inter> set escapeChars = {} \<Longrightarrow>
   sublist (0x40 # q) (escapeMarkup s) = sublist (0x40 # q) s"
  by (simp add: sublist_atSegs atSegs_escapeMarkup prefix_escapeMarkup)

lemma broadcastFree_escapeMarkup: "broadcastFree opts s \<Longrightarrow> broadcastFree opts (escapeMarkup s)"
  by (simp add: broadcastFree_def tok_everyone tok_here tok_room sublist_escapeMarkup noat nores)


lemma segReplace_self:
  "q \<noteq> [] \<Longrightarrow> r \<noteq> [] \<Longrightarrow> hd q \<noteq> hd r \<Longrightarrow> \<not> prefix q (segReplace q r x)"
  by (cases q; cases r) (auto simp: segReplace_def)







lemma sublist_escapeDiscord:
  "0x40 \<notin> set q \<Longrightarrow> set q \<inter> set escapeChars = {} \<Longrightarrow>
   sublist (0x40 # q) (escapeDiscord opts s)
     \<longleftrightarrow> (\<exists>seg \<in> set (atSegs s). prefix q (segRewrite opts seg))"
proof -
  assume q: "0x40 \<notin> set q" "set q \<inter> set escapeChars = {}"
  have "sublist (0x40 # q) (escapeDiscord opts s) = sublist (0x40 # q) (rewriteBroadcast opts s)"
    using q by (simp add: escapeDiscord_eq sublist_escapeMarkup)
  also have "\<dots> = (\<exists>seg \<in> set (atSegs (rewriteBroadcast opts s)). prefix q seg)"
    using q by (simp add: sublist_atSegs)
  also have "\<dots> = (\<exists>seg \<in> set (atSegs s). prefix q (segRewrite opts seg))"
    by (simp add: atSegs_rewriteBroadcast)
  finally show ?thesis .
qed


lemma FormatMessage_plain:
  "\<not> truthy (formatted_body msg) \<Longrightarrow> msgtype msg \<noteq> js ''m.emote'' \<Longrightarrow>
   FormatMessage env opts msg guild profile = escapeDiscord opts (body msg)"
  by (simp add: FormatMessage_def)

subsection \<open>Plain-text messages\<close>

text \<open>
  Claim C1, as the code has it. For a plain-text message (no formatted body) that is not
  an emote and on whose body no broadcast replacement fires, \<open>FormatMessage\<close> puts a
  backslash in front of each backslash, asterisk, underscore, tilde and backquote and
  changes nothing else; removing the escapes gives the body back; formatting the result
  once more escapes it once more, which changes it exactly when the body has a reserved
  character; and the backslashes of the result are those of the body, each doubled, plus
  one for every other reserved character.
\<close>

theorem FormatMessage_plain_escapes:
  assumes "\<not> truthy (formatted_body msg)" and "msgtype msg \<noteq> js ''m.emote''"
    and "broadcastFree opts (body msg)"
  shows "FormatMessage env opts msg guild profile = escapeMarkup (body msg) \<and>
         unescapeMarkup (FormatMessage env opts msg guild profile) = body msg \<and>
         FormatMessage env opts (msg\<lparr>body := FormatMessage env opts msg guild profile\<rparr>) guild profile
           = escapeMarkup (escapeMarkup (body msg)) \<and>
         (escapeMarkup (escapeMarkup (body msg)) = escapeMarkup (body msg)
            \<longleftrightarrow> set (body msg) \<inter> set escapeChars = {}) \<and>
         length (filter (\<lambda>c. c = 0x5C) (FormatMessage env opts msg guild profile))
           = length (filter (\<lambda>c. c = 0x5C) (body msg))
             + length (filter (\<lambda>c. c \<in> set escapeChars) (body msg))"
proof -
  have 1: "FormatMessage env opts msg guild profile = escapeMarkup (body msg)"
    using assms by (simp add: FormatMessage_plain escapeDiscord_eq rewriteBroadcast_free)
  have "broadcastFree opts (escapeMarkup (body msg))"
    using assms(3) by (rule broadcastFree_escapeMarkup)
  then have 2: "FormatMessage env opts (msg\<lparr>body := escapeMarkup (body msg)\<rparr>) guild profile
      = escapeMarkup (escapeMarkup (body msg))"
    using assms(1,2) by (simp add: FormatMessage_plain escapeDiscord_eq rewriteBroadcast_free)
  show ?thesis
    using 1 2 by (simp add: unescape_escape escape_twice_iff backslashes_escapeMarkup)
qed

text \<open>The second test of the suite, an input that is escaped already.\<close>

theorem FormatMessage_plain_escapes_witness:
  "\<not> truthy (formatted_body msgEscaped) \<and>
   msgtype msgEscaped \<noteq> js ''m.emote'' \<and>
   broadcastFree defaultOpts (body msgEscaped) \<and>
   FormatMessage env0 defaultOpts msgEscaped guild0 None
     = js ''wow '' @ [0x5C, 0x5C, 0x5C] @ js ''*this'' @ [0x5C, 0x5C, 0x5C] @ js ''* is cool'' \<and>
   unescapeMarkup (FormatMessage env0 defaultOpts msgEscaped guild0 None) = body msgEscaped \<and>
   FormatMessage env0 defaultOpts
       (msgEscaped\<lparr>body := FormatMessage env0 defaultOpts msgEscaped guild0 None\<rparr>) guild0 None
     \<noteq> FormatMessage env0 defaultOpts msgEscaped guild0 None"
proof -
  have h1: "\<not> truthy (formatted_body msgEscaped)" by (simp add: msgEscaped_def truthy_def)
  have h2: "msgtype msgEscaped \<noteq> js ''m.emote''" by (simp add: msgEscaped_def js_def)
  have h3: "broadcastFree defaultOpts (body msgEscaped)"
    by (simp add: msgEscaped_def broadcastFree_def defaultOpts_def js_def sublist_Cons_right)
  have e: "escapeMarkup (body msgEscaped)
      = js ''wow '' @ [0x5C, 0x5C, 0x5C] @ js ''*this'' @ [0x5C, 0x5C, 0x5C] @ js ''* is cool''"
    by (simp add: msgEscaped_def js_def escapeChar_def escapeChars_def)
  have r: "set (body msgEscaped) \<inter> set escapeChars \<noteq> {}"
    by (simp add: msgEscaped_def js_def escapeChars_def)
  note t = FormatMessage_plain_escapes[OF h1 h2 h3, of env0 guild0 None]
  from t have a: "FormatMessage env0 defaultOpts msgEscaped guild0 None = escapeMarkup (body msgEscaped)"
    by (rule conjunct1)
  from t have b: "unescapeMarkup (FormatMessage env0 defaultOpts msgEscaped guild0 None) = body msgEscaped"
    by blast
  from t r have c: "FormatMessage env0 defaultOpts
       (msgEscaped\<lparr>body := FormatMessage env0 defaultOpts msgEscaped guild0 None\<rparr>) guild0 None
     \<noteq> FormatMessage env0 defaultOpts msgEscaped guild0 None"
    by metis
  from a e have a': "FormatMessage env0 defaultOpts msgEscaped guild0 None
     = js ''wow '' @ [0x5C, 0x5C, 0x5C] @ js ''*this'' @ [0x5C, 0x5C, 0x5C] @ js ''* is cool''"
    by (rule trans)
  from h1 h2 h3 a' b c show ?thesis by blast
qed

text \<open>
  As it is worded, C1 promises the round trip for every plain-text message; the message
  \<open>hey @room\<close> does not come back, and neither does the emote \<open>floofs\<close>, which is
  wrapped in underscores.
\<close>

theorem FormatMessage_roundtrip_counterexample:
  "unescapeMarkup (FormatMessage env0 defaultOpts
      \<lparr>body = js ''hey @room'', formatted_body = None, msgtype = js ''m.text''\<rparr> guild0 None)
     \<noteq> js ''hey @room'' \<and>
   unescapeMarkup (FormatMessage env0 defaultOpts
      \<lparr>body = js ''floofs'', formatted_body = None, msgtype = js ''m.emote''\<rparr> guild0 None)
     \<noteq> js ''floofs''"
  by (simp add: FormatMessage_def truthy_def escapeDiscord_def defaultOpts_def escapeChars_def js_def)

lemma seg_no_room: "\<not> prefix (js ''room'') (segRewrite opts seg)"
  unfolding segRewrite_def by (rule segReplace_self) (simp_all add: js_def)

lemma escapeDiscord_no_room: "\<not> sublist (js ''@room'') (escapeDiscord opts s)"
  by (simp add: tok_room sublist_escapeDiscord noat nores seg_no_room)

text \<open>
  Claim C6. The claim lets the broadcast token \<open>@room\<close> become \<open>@here\<close> only for a
  sender with sufficient power and lets it pass unconverted otherwise. The code converts
  it for every sender: whatever the options, the guild and the profile, the plain message
  \<open>hey @room\<close> is rendered as \<open>hey @here\<close>, and no output of \<open>escapeDiscord\<close>
  contains \<open>@room\<close>.
\<close>

theorem FormatMessage_room_unconditional:
  "FormatMessage env opts \<lparr>body = js ''hey @room'', formatted_body = None, msgtype = js ''m.text''\<rparr>
      guild profile = js ''hey @here'' \<and>
   \<not> sublist (js ''@room'') (escapeDiscord opts s)"
proof
  show "FormatMessage env opts
      \<lparr>body = js ''hey @room'', formatted_body = None, msgtype = js ''m.text''\<rparr> guild profile
      = js ''hey @here''"
    by (cases "disableEveryone opts"; cases "disableHere opts")
       (simp_all add: FormatMessage_def truthy_def escapeDiscord_def escapeChars_def js_def)
  show "\<not> sublist (js ''@room'') (escapeDiscord opts s)"
    by (rule escapeDiscord_no_room)
qed

subsection \<open>Broadcast tokens, token by token\<close>



























subsection \<open>User pills\<close>

text \<open>
  Claim C5. The claim has an unresolved user pill rendered as a plain link that contains
  the id. The code renders the children of the anchor only: for the guild with the single
  member 12345, the pill of the user 789 with the text \<open>TestUsername\<close> becomes
  \<open>TestUsername\<close>, without link and without id.
\<close>

theorem unresolved_user_pill_renders_children:
  "walkNode env opts \<lparr>members = {js ''12345''}, channels = {}, emojis = []\<rparr>
     (HTMLElement (Some (js ''a''))
        [js ''href'' \<mapsto> js ''https://matrix.to/#/@_discord_789:localhost'']
        (js ''TestUsername'') [TextNode (js ''TestUsername'')])
   = js ''TestUsername''"
  by (cases "disableEveryone opts"; cases "disableHere opts")
     (simp_all add: MATRIX_TO_LINK_def parseUser_def isDigit_def escapeDiscord_def escapeChars_def
        js_def)

section \<open>Properties of the event processor\<close>

subsection \<open>Attachments\<close>

lemma HandleAttachment_unfold:
  assumes "HasAttachment event" and "content event = Some c" and "truthy (content_url c)"
  shows "HandleAttachment env event =
     (case GetFilenameForMediaEvent env
             (c\<lparr>content_info := Some (case content_info c of
                                        None \<Rightarrow> \<lparr>info_size = Some 0, info_mimetype = None\<rparr>
                                      | Some i \<Rightarrow> i)\<rparr>) of
        Inl e \<Rightarrow> Inl e
      | Inr name \<Rightarrow>
          if declaredSize c < MaxFileSize
          then (case DownloadFile env (mxcUrlToHttp env (content_url c)) of
                  Inl e \<Rightarrow> Inl e
                | Inr downloaded \<Rightarrow>
                    if int (length downloaded) < MaxFileSize
                    then Inr (Inr \<lparr>attachment = downloaded, file_name = name\<rparr>)
                    else Inr (Inl (linkReference name (mxcUrlToHttp env (content_url c)))))
          else Inr (Inl (linkReference name (mxcUrlToHttp env (content_url c)))))"
  using assms
  by (auto simp: HandleAttachment_def declaredSize_def Let_def split: option.splits sum.splits)

text \<open>
  Where the file name can be computed, the size decides as the claim says: a file only
  below the ceiling of 8000000 for both the declared size and the download, the link
  reference otherwise.
\<close>

lemma HandleAttachment_size_ceiling:
  assumes "HasAttachment event" and "content event = Some c" and "truthy (content_url c)"
    and "GetFilenameForMediaEvent env
           (c\<lparr>content_info := Some (case content_info c of
                                      None \<Rightarrow> \<lparr>info_size = Some 0, info_mimetype = None\<rparr>
                                    | Some i \<Rightarrow> i)\<rparr>) = Inr name"
  shows "MaxFileSize = 8000000 \<and>
     (\<forall>f. HandleAttachment env event = Inr (Inr f) \<longrightarrow>
        declaredSize c < MaxFileSize \<and>
        DownloadFile env (mxcUrlToHttp env (content_url c)) = Inr (attachment f) \<and>
        int (length (attachment f)) < MaxFileSize) \<and>
     (MaxFileSize \<le> declaredSize c \<longrightarrow>
        HandleAttachment env event
          = Inr (Inl (linkReference name (mxcUrlToHttp env (content_url c))))) \<and>
     (\<forall>downloaded. declaredSize c < MaxFileSize \<and>
        DownloadFile env (mxcUrlToHttp env (content_url c)) = Inr downloaded \<and>
        MaxFileSize \<le> int (length downloaded) \<longrightarrow>
        HandleAttachment env event
          = Inr (Inl (linkReference name (mxcUrlToHttp env (content_url c))))) \<and>
     (\<forall>downloaded. declaredSize c < MaxFileSize \<and>
        DownloadFile env (mxcUrlToHttp env (content_url c)) = Inr downloaded \<and>
        int (length downloaded) < MaxFileSize \<longrightarrow>
        HandleAttachment env event
          = Inr (Inr \<lparr>attachment = downloaded, file_name = name\<rparr>))"
  unfolding HandleAttachment_unfold[OF assms(1-3)] assms(4)
  by (auto simp: MaxFileSize_def split: sum.splits if_splits)

lemma HandleAttachment_never_file_above_ceiling:
  assumes "HasAttachment event" and "content event = Some c" and "truthy (content_url c)"
    and "HandleAttachment env event = Inr (Inr f)"
  shows "declaredSize c < 8000000 \<and> int (length (attachment f)) < 8000000"
  using assms(4) unfolding HandleAttachment_unfold[OF assms(1-3)]
  by (auto simp: MaxFileSize_def split: sum.splits if_splits)

text \<open>
  Claim C8. The claim gives the link reference to every attachment-carrying event whose
  declared size is at or above the ceiling. The code computes the file name before it
  looks at the size: for an event with an attachment type and a media URL whose body has
  no extension (or is absent) and whose mime type is absent, \<open>mime.extension\<close> raises
  and \<open>HandleAttachment\<close> ends with a TypeError, whatever the declared size.
\<close>

theorem HandleAttachment_raises_without_mimetype:
  assumes "HasAttachment event" and "content event = Some c" and "truthy (content_url c)"
    and "\<not> truthy (content_body c) \<or> path_extname env (the (content_body c)) = []"
    and "case content_info c of None \<Rightarrow> True | Some i \<Rightarrow> info_mimetype i = None"
  shows "HandleAttachment env event = Inl TypeError"
  using assms(4,5) unfolding HandleAttachment_unfold[OF assms(1-3)]
  by (auto simp: GetFilenameForMediaEvent_def mimeExtension_def split: option.splits)

text \<open>
  An image named \<open>cat\<close>, declared with 9000000 bytes and without mime type: the claim
  says link reference, the code raises.
\<close>

theorem HandleAttachment_raises_without_mimetype_witness:
  "HasAttachment oversizedCat \<and> content oversizedCat = Some oversizedCatContent \<and>
   truthy (content_url oversizedCatContent) \<and>
   path_extname bridge0 (the (content_body oversizedCatContent)) = [] \<and>
   content_info oversizedCatContent = Some \<lparr>info_size = Some 9000000, info_mimetype = None\<rparr> \<and>
   MaxFileSize \<le> declaredSize oversizedCatContent \<and>
   HandleAttachment bridge0 oversizedCat = Inl TypeError"
proof -
  have h1: "HasAttachment oversizedCat"
    by (simp add: HasAttachment_def oversizedCat_def oversizedCatContent_def)
  have h2: "content oversizedCat = Some oversizedCatContent" by (simp add: oversizedCat_def)
  have h3: "truthy (content_url oversizedCatContent)"
    by (simp add: oversizedCatContent_def truthy_def js_def)
  have p: "path_extname bridge0 (the (content_body oversizedCatContent)) = []"
    by (simp add: oversizedCatContent_def bridge0_def)
  have i: "content_info oversizedCatContent = Some \<lparr>info_size = Some 9000000, info_mimetype = None\<rparr>"
    by (simp add: oversizedCatContent_def)
  have h4: "\<not> truthy (content_body oversizedCatContent)
            \<or> path_extname bridge0 (the (content_body oversizedCatContent)) = []"
    using p by simp
  have h5: "case content_info oversizedCatContent of None \<Rightarrow> True
            | Some i \<Rightarrow> info_mimetype i = None"
    by (simp add: i)
  have d: "MaxFileSize \<le> declaredSize oversizedCatContent"
    by (simp add: declaredSize_def i MaxFileSize_def)
  from HandleAttachment_raises_without_mimetype[OF h1 h2 h3 h4 h5] h1 h2 h3 p i d
  show ?thesis by simp
qed

lemma length_bigPayload: "length bigPayload = 8000000"
  by (simp only: bigPayload_def length_replicate)

lemma HandleAttachment_examples:
  "HandleAttachment bridge0 (mediaEvent ''small'' None)
     = Inr (Inr \<lparr>attachment = [1, 2, 3], file_name = js ''cat.png''\<rparr>) \<and>
   HandleAttachment bridge0 (mediaEvent ''small'' (Some 8000000))
     = Inr (Inl (js ''[cat.png](https://hs/small)'')) \<and>
   HandleAttachment bridge0 (mediaEvent ''big'' (Some 10))
     = Inr (Inl (js ''[cat.png](https://hs/big)''))"
proof -
  let ?c = "\<lambda>m d. \<lparr>content_body = Some (js ''cat.png''), content_msgtype = Some (js ''m.image''),
             content_url = Some (js m),
             content_info = Some \<lparr>info_size = d, info_mimetype = Some (js ''image/png'')\<rparr>,
             in_reply_to = None\<rparr>"
  have c: "content (mediaEvent m d) = Some (?c m d)" for m d
    by (simp add: mediaEvent_def)
  have h: "HasAttachment (mediaEvent m d)" for m d
    by (simp add: HasAttachment_def mediaEvent_def)
  have u: "truthy (content_url (?c ''small'' d))" "truthy (content_url (?c ''big'' d))" for d
    by (simp_all add: truthy_def js_def)
  have n: "GetFilenameForMediaEvent bridge0
             ((?c m d)\<lparr>content_info := Some (case content_info (?c m d) of
                 None \<Rightarrow> \<lparr>info_size = Some 0, info_mimetype = None\<rparr> | Some i \<Rightarrow> i)\<rparr>)
           = Inr (js ''cat.png'')" for m d
    by (simp add: GetFilenameForMediaEvent_def bridge0_def truthy_def js_def)
  note t1 = HandleAttachment_size_ceiling[OF h[of "''small''" None] c[of "''small''" None]
      u(1)[of None] n[of "''small''" None]]
  note t2 = HandleAttachment_size_ceiling[OF h[of "''small''" "Some 8000000"]
      c[of "''small''" "Some 8000000"] u(1)[of "Some 8000000"] n[of "''small''" "Some 8000000"]]
  note t3 = HandleAttachment_size_ceiling[OF h[of "''big''" "Some 10"] c[of "''big''" "Some 10"]
      u(2)[of "Some 10"] n[of "''big''" "Some 10"]]
  have d1: "DownloadFile bridge0 (mxcUrlToHttp bridge0 (Some (js ''small''))) = Inr [1, 2, 3]"
    by (simp add: bridge0_def js_def)
  have d3: "DownloadFile bridge0 (js ''https://hs/big'') = Inr bigPayload"
    by (simp add: bridge0_def js_def)
  have u1: "mxcUrlToHttp bridge0 (Some (js ''small'')) = js ''https://hs/small''"
    and u3: "mxcUrlToHttp bridge0 (Some (js ''big'')) = js ''https://hs/big''"
    by (simp_all add: bridge0_def js_def)
  have l: "linkReference (js ''cat.png'') (js ''https://hs/small'') = js ''[cat.png](https://hs/small)''"
    "linkReference (js ''cat.png'') (js ''https://hs/big'') = js ''[cat.png](https://hs/big)''"
    by (simp_all add: linkReference_def js_def)
  have s1: "declaredSize (?c m None) = 0" "declaredSize (?c m (Some k)) = k" for m k
    by (simp_all add: declaredSize_def)
  from t1 have "declaredSize (?c ''small'' None) < MaxFileSize \<and>
        DownloadFile bridge0 (mxcUrlToHttp bridge0 (content_url (?c ''small'' None))) = Inr [1, 2, 3] \<and>
        int (length [1, 2, 3 :: 8 word]) < MaxFileSize \<longrightarrow>
        HandleAttachment bridge0 (mediaEvent ''small'' None)
          = Inr (Inr \<lparr>attachment = [1, 2, 3], file_name = js ''cat.png''\<rparr>)"
    by blast
  then have 1: "HandleAttachment bridge0 (mediaEvent ''small'' None)
     = Inr (Inr \<lparr>attachment = [1, 2, 3], file_name = js ''cat.png''\<rparr>)"
    by (simp add: s1 d1 MaxFileSize_def)
  from t2 have "MaxFileSize \<le> declaredSize (?c ''small'' (Some 8000000)) \<longrightarrow>
        HandleAttachment bridge0 (mediaEvent ''small'' (Some 8000000))
          = Inr (Inl (linkReference (js ''cat.png'')
                        (mxcUrlToHttp bridge0 (content_url (?c ''small'' (Some 8000000))))))"
    by blast
  then have 2: "HandleAttachment bridge0 (mediaEvent ''small'' (Some 8000000))
     = Inr (Inl (js ''[cat.png](https://hs/small)''))"
    by (simp add: s1 u1 l MaxFileSize_def)
  from t3 have "declaredSize (?c ''big'' (Some 10)) < MaxFileSize \<and>
        DownloadFile bridge0 (mxcUrlToHttp bridge0 (content_url (?c ''big'' (Some 10)))) = Inr bigPayload \<and>
        MaxFileSize \<le> int (length bigPayload) \<longrightarrow>
        HandleAttachment bridge0 (mediaEvent ''big'' (Some 10))
          = Inr (Inl (linkReference (js ''cat.png'')
                        (mxcUrlToHttp bridge0 (content_url (?c ''big'' (Some 10))))))"
    by blast
  then have 3: "HandleAttachment bridge0 (mediaEvent ''big'' (Some 10))
     = Inr (Inl (js ''[cat.png](https://hs/big)''))"
    by (simp add: s1 d3 u3 l MaxFileSize_def length_bigPayload)
  from 1 2 3 show ?thesis by simp
qed

subsection \<open>Replies\<close>

lemma EventToEmbed_noReply:
  "EventToEmbed env event False =
     ([], case renderMessage env event of
            Inl e \<Rightarrow> Inl e
          | Inr message \<Rightarrow> Inr \<lparr>messageEmbed = message, replyEmbed = None\<rparr>)"
  by (subst EventToEmbed.simps)
     (simp add: renderMessage_def movePing_def Let_def split: sum.splits)

lemma GetEmbedForReply_quoted:
  "GetEmbedForReply env event =
     (case replyTarget event of
        None \<Rightarrow> ([], Inr None)
      | Some eventId \<Rightarrow>
          ([(room_id event, eventId)], Inr (Some (quotedEmbed env (room_id event) eventId))))"
  by (subst GetEmbedForReply.simps)
     (simp add: replyTarget_def quotedEmbed_def withReplyBody_def EventToEmbed_noReply Let_def
        split: option.splits sum.splits)

lemma EventToEmbed_reply:
  "EventToEmbed env event True =
     (case renderMessage env event of
        Inl e \<Rightarrow> ([], Inl e)
      | Inr message \<Rightarrow>
          (case replyTarget event of
             None \<Rightarrow> ([], Inr \<lparr>messageEmbed = message, replyEmbed = None\<rparr>)
           | Some eventId \<Rightarrow>
               ([(room_id event, eventId)],
                Inr (movePing message (Some (quotedEmbed env (room_id event) eventId))))))"
  by (subst EventToEmbed.simps)
     (simp add: renderMessage_def GetEmbedForReply_quoted movePing_def Let_def
        split: sum.splits option.splits)

text \<open>
  Claim C2. Rendering an event with reply resolution fetches at most one event, the one
  it replies to, and the reply embed is that event rendered once: \<open>GetEmbedForReply\<close>
  hands the fetched event to \<open>EventToEmbed\<close> with \<open>getReply = false\<close>, and such a
  rendering is the event on its own, with no request to \<open>intent.getEvent\<close> and no
  reply embed, also when the fetched event declares a reply itself. The two functions
  are total: their recursion ends after this one nested call.
\<close>

theorem reply_resolution_one_level:
  "EventToEmbed env event True =
     (case renderMessage env event of
        Inl e \<Rightarrow> ([], Inl e)
      | Inr message \<Rightarrow>
          (case replyTarget event of
             None \<Rightarrow> ([], Inr \<lparr>messageEmbed = message, replyEmbed = None\<rparr>)
           | Some eventId \<Rightarrow>
               ([(room_id event, eventId)],
                Inr (movePing message (Some (quotedEmbed env (room_id event) eventId)))))) \<and>
   GetEmbedForReply env event =
     (case replyTarget event of
        None \<Rightarrow> ([], Inr None)
      | Some eventId \<Rightarrow>
          ([(room_id event, eventId)], Inr (Some (quotedEmbed env (room_id event) eventId)))) \<and>
   quotedEmbed env roomId eventId' =
     (case getEvent env roomId eventId' of
        Inl e \<Rightarrow> unknownReplyEmbed
      | Inr sourceEvent \<Rightarrow>
          (case content sourceEvent of
             None \<Rightarrow> unknownReplyEmbed
           | Some c \<Rightarrow>
               (case snd (EventToEmbed env (withReplyBody sourceEvent c) False) of
                  Inl e \<Rightarrow> unknownReplyEmbed
                | Inr res \<Rightarrow>
                    (case decorateReply env (withReplyBody sourceEvent c) (messageEmbed res) of
                       Inl e \<Rightarrow> unknownReplyEmbed
                     | Inr replyEmbed' \<Rightarrow> replyEmbed')))) \<and>
   EventToEmbed env event False =
     ([], case renderMessage env event of
            Inl e \<Rightarrow> Inl e
          | Inr message \<Rightarrow> Inr \<lparr>messageEmbed = message, replyEmbed = None\<rparr>)"
proof (intro conjI)
  show "quotedEmbed env roomId eventId' =
     (case getEvent env roomId eventId' of
        Inl e \<Rightarrow> unknownReplyEmbed
      | Inr sourceEvent \<Rightarrow>
          (case content sourceEvent of
             None \<Rightarrow> unknownReplyEmbed
           | Some c \<Rightarrow>
               (case snd (EventToEmbed env (withReplyBody sourceEvent c) False) of
                  Inl e \<Rightarrow> unknownReplyEmbed
                | Inr res \<Rightarrow>
                    (case decorateReply env (withReplyBody sourceEvent c) (messageEmbed res) of
                       Inl e \<Rightarrow> unknownReplyEmbed
                     | Inr replyEmbed' \<Rightarrow> replyEmbed'))))"
    by (simp add: quotedEmbed_def EventToEmbed_noReply split: sum.splits option.splits)
qed (rule EventToEmbed_reply GetEmbedForReply_quoted EventToEmbed_noReply)+

lemma sample_render:
  "length text \<le> 2048 \<Longrightarrow>
   renderMessage bridge0 (textEvent eid who text reply) =
     Inr \<lparr>embed_description = Some (js text),
          embed_author = Some \<lparr>author_name = take MAX_NAME_LENGTH (js who),
            author_icon_url = None,
            author_url = Some (js ''https://matrix.to/#/'' @ js who)\<rparr>,
          embed_fields = [], embed_timestamp = None, embed_image = None\<rparr>"
  by (simp add: renderMessage_def textEvent_def bridge0_def SetEmbedAuthor_def setDescription_def
      newRichEmbed_def Let_def js_def)

text \<open>
  A chain of three: rendering \<open>$a\<close> fetches \<open>$b\<close> only and quotes it; \<open>$c\<close>, to
  which \<open>$b\<close> replies, does not appear.
\<close>

theorem reply_resolution_one_level_witness:
  "replyTarget eventA = Some (js ''$b'') \<and>
   getEvent bridge0 (room_id eventA) (js ''$b'') = Inr eventB \<and>
   replyTarget eventB = Some (js ''$c'') \<and>
   getEvent bridge0 (room_id eventB) (js ''$c'') = Inr eventC \<and>
   EventToEmbed bridge0 eventA True =
     ([(sampleRoom, js ''$b'')],
      Inr \<lparr>messageEmbed =
             \<lparr>embed_description = Some (js ''third''),
              embed_author = Some \<lparr>author_name = js ''@alice:localhost'',
                author_icon_url = None,
                author_url = Some (js ''https://matrix.to/#/@alice:localhost'')\<rparr>,
              embed_fields = [], embed_timestamp = None, embed_image = None\<rparr>,
           replyEmbed = Some
             \<lparr>embed_description = Some (js ''second''),
              embed_author = Some \<lparr>author_name = js ''@bob:localhost'',
                author_icon_url = None,
                author_url = Some (js ''https://matrix.to/#/@bob:localhost'')\<rparr>,
              embed_fields = [], embed_timestamp = Some 1000, embed_image = None\<rparr>\<rparr>)"
proof -
  have a: "replyTarget eventA = Some (js ''$b'')" "replyTarget eventB = Some (js ''$c'')"
    by (simp_all add: replyTarget_def eventA_def eventB_def textEvent_def)
  have g: "getEvent bridge0 (room_id eventA) (js ''$b'') = Inr eventB"
    "getEvent bridge0 (room_id eventB) (js ''$c'') = Inr eventC"
    by (simp_all add: bridge0_def eventA_def eventB_def textEvent_def js_def)
  have r: "room_id eventA = sampleRoom" by (simp add: eventA_def textEvent_def)
  have mA: "renderMessage bridge0 eventA =
     Inr \<lparr>embed_description = Some (js ''third''),
          embed_author = Some \<lparr>author_name = js ''@alice:localhost'',
            author_icon_url = None,
            author_url = Some (js ''https://matrix.to/#/@alice:localhost'')\<rparr>,
          embed_fields = [], embed_timestamp = None, embed_image = None\<rparr>"
    unfolding eventA_def by (subst sample_render) (simp_all add: MAX_NAME_LENGTH_def js_def)
  have wB: "withReplyBody eventB
      \<lparr>content_body = Some (js ''second''), content_msgtype = Some (js ''m.text''),
       content_url = None, content_info = None, in_reply_to = Some (js ''$c'')\<rparr> = eventB"
    by (simp add: withReplyBody_def eventB_def textEvent_def truthy_def js_def)
  have cB: "content eventB =
      Some \<lparr>content_body = Some (js ''second''), content_msgtype = Some (js ''m.text''),
       content_url = None, content_info = None, in_reply_to = Some (js ''$c'')\<rparr>"
    by (simp add: eventB_def textEvent_def)
  have mB: "renderMessage bridge0 eventB =
     Inr \<lparr>embed_description = Some (js ''second''),
          embed_author = Some \<lparr>author_name = js ''@bob:localhost'',
            author_icon_url = None,
            author_url = Some (js ''https://matrix.to/#/@bob:localhost'')\<rparr>,
          embed_fields = [], embed_timestamp = None, embed_image = None\<rparr>"
    unfolding eventB_def by (subst sample_render) (simp_all add: MAX_NAME_LENGTH_def js_def)
  have dB: "decorateReply bridge0 eventB m = Inr (m\<lparr>embed_timestamp := Some 1000\<rparr>)" for m
    by (simp add: decorateReply_def HasAttachment_def eventB_def textEvent_def bridge0_def
        Let_def js_def)
  have q: "quotedEmbed bridge0 sampleRoom (js ''$b'') =
     \<lparr>embed_description = Some (js ''second''),
      embed_author = Some \<lparr>author_name = js ''@bob:localhost'',
        author_icon_url = None,
        author_url = Some (js ''https://matrix.to/#/@bob:localhost'')\<rparr>,
      embed_fields = [], embed_timestamp = Some 1000, embed_image = None\<rparr>"
    using g(1) by (simp add: quotedEmbed_def r cB wB mB dB)
  from reply_resolution_one_level[of bridge0 eventA]
  have "EventToEmbed bridge0 eventA True =
     ([(sampleRoom, js ''$b'')],
      Inr (movePing
        \<lparr>embed_description = Some (js ''third''),
         embed_author = Some \<lparr>author_name = js ''@alice:localhost'',
           author_icon_url = None,
           author_url = Some (js ''https://matrix.to/#/@alice:localhost'')\<rparr>,
         embed_fields = [], embed_timestamp = None, embed_image = None\<rparr>
        (Some (quotedEmbed bridge0 sampleRoom (js ''$b'')))))"
    by (simp add: mA a r)
  then have e: "EventToEmbed bridge0 eventA True =
     ([(sampleRoom, js ''$b'')],
      Inr \<lparr>messageEmbed =
             \<lparr>embed_description = Some (js ''third''),
              embed_author = Some \<lparr>author_name = js ''@alice:localhost'',
                author_icon_url = None,
                author_url = Some (js ''https://matrix.to/#/@alice:localhost'')\<rparr>,
              embed_fields = [], embed_timestamp = None, embed_image = None\<rparr>,
           replyEmbed = Some
             \<lparr>embed_description = Some (js ''second''),
              embed_author = Some \<lparr>author_name = js ''@bob:localhost'',
                author_icon_url = None,
                author_url = Some (js ''https://matrix.to/#/@bob:localhost'')\<rparr>,
              embed_fields = [], embed_timestamp = Some 1000, embed_image = None\<rparr>\<rparr>)"
    by (simp add: q movePing_def)
  from a g e show ?thesis by simp
qed

text \<open>
  Claim C9. When an event declares a reply and the event replied to cannot be fetched,
  \<open>GetEmbedForReply\<close> returns the embed with the description
  \<open>Reply with unknown content\<close> and the author \<open>Unknown\<close>, and does not raise; the
  rendering of the replying event is then the rendering without the reply, with that
  embed as reply embed.
\<close>

theorem GetEmbedForReply_fetch_failure_fallback:
  assumes "replyTarget event = Some eventId"
    and "getEvent env (room_id event) eventId = Inl e"
  shows "GetEmbedForReply env event = ([(room_id event, eventId)], Inr (Some unknownReplyEmbed)) \<and>
         embed_description unknownReplyEmbed = Some (js ''Reply with unknown content'') \<and>
         map_option author_name (embed_author unknownReplyEmbed) = Some (js ''Unknown'') \<and>
         snd (EventToEmbed env event True) =
           (case snd (EventToEmbed env event False) of
              Inl e' \<Rightarrow> Inl e'
            | Inr res \<Rightarrow> Inr (res\<lparr>replyEmbed := Some unknownReplyEmbed\<rparr>))"
proof -
  have q: "quotedEmbed env (room_id event) eventId = unknownReplyEmbed"
    using assms(2) by (simp add: quotedEmbed_def)
  have g: "GetEmbedForReply env event = ([(room_id event, eventId)], Inr (Some unknownReplyEmbed))"
    using assms(1) q by (simp add: GetEmbedForReply_quoted)
  have d: "embed_description unknownReplyEmbed = Some (js ''Reply with unknown content'') \<and>
         map_option author_name (embed_author unknownReplyEmbed) = Some (js ''Unknown'')"
    by (simp add: unknownReplyEmbed_def newRichEmbed_def)
  have m: "\<And>message. movePing message (Some unknownReplyEmbed)
      = \<lparr>messageEmbed = message, replyEmbed = Some unknownReplyEmbed\<rparr>"
    by (simp add: movePing_def unknownReplyEmbed_def newRichEmbed_def)
  have s: "snd (EventToEmbed env event True) =
           (case snd (EventToEmbed env event False) of
              Inl e' \<Rightarrow> Inl e'
            | Inr res \<Rightarrow> Inr (res\<lparr>replyEmbed := Some unknownReplyEmbed\<rparr>))"
    using assms(1) by (simp add: EventToEmbed_reply EventToEmbed_noReply q m split: sum.splits)
  from g d s show ?thesis by simp
qed

theorem GetEmbedForReply_fetch_failure_fallback_witness:
  "replyTarget eventLost = Some (js ''$gone'') \<and>
   getEvent bridge0 (room_id eventLost) (js ''$gone'') = Inl (Error (js ''M_NOT_FOUND'')) \<and>
   GetEmbedForReply bridge0 eventLost
     = ([(sampleRoom, js ''$gone'')], Inr (Some unknownReplyEmbed)) \<and>
   snd (EventToEmbed bridge0 eventLost True) =
     Inr \<lparr>messageEmbed = newRichEmbed\<lparr>embed_description := Some (js ''fourth''),
             embed_author := Some \<lparr>author_name = js ''@alice:localhost'',
               author_icon_url = None,
               author_url = Some (js ''https://matrix.to/#/@alice:localhost'')\<rparr>\<rparr>,
           replyEmbed = Some unknownReplyEmbed\<rparr>"
proof -
  have a: "replyTarget eventLost = Some (js ''$gone'')"
    by (simp add: replyTarget_def eventLost_def textEvent_def)
  have g: "getEvent bridge0 (room_id eventLost) (js ''$gone'') = Inl (Error (js ''M_NOT_FOUND''))"
    by (simp add: bridge0_def eventLost_def textEvent_def js_def)
  have r: "room_id eventLost = sampleRoom" by (simp add: eventLost_def textEvent_def)
  have "renderMessage bridge0 eventLost =
     Inr (newRichEmbed\<lparr>embed_description := Some (js ''fourth''),
             embed_author := Some \<lparr>author_name = js ''@alice:localhost'',
               author_icon_url = None,
               author_url = Some (js ''https://matrix.to/#/@alice:localhost'')\<rparr>\<rparr>)"
    unfolding eventLost_def
    by (subst sample_render) (simp_all add: MAX_NAME_LENGTH_def newRichEmbed_def js_def)
  then have n: "snd (EventToEmbed bridge0 eventLost False) =
     Inr \<lparr>messageEmbed = newRichEmbed\<lparr>embed_description := Some (js ''fourth''),
             embed_author := Some \<lparr>author_name = js ''@alice:localhost'',
               author_icon_url = None,
               author_url = Some (js ''https://matrix.to/#/@alice:localhost'')\<rparr>\<rparr>,
           replyEmbed = None\<rparr>"
    by (simp add: EventToEmbed_noReply)
  from GetEmbedForReply_fetch_failure_fallback[OF a g] a g r n show ?thesis by simp
qed

section \<open>Properties of the bot\<close>

lemma indexOf_found:
  "Some x \<in> set ys \<Longrightarrow>
   \<exists>i. indexOf ys x = Some i \<and> i < length ys \<and> ys ! i = Some x \<and> (\<forall>j<i. ys ! j \<noteq> Some x)"
proof (induction ys)
  case Nil
  then show ?case by simp
next
  case (Cons y ys)
  show ?case
  proof (cases "y = Some x")
    case True
    then show ?thesis by simp
  next
    case False
    with Cons.prems have "Some x \<in> set ys" by simp
    from Cons.IH[OF this] obtain i where i: "indexOf ys x = Some i" "i < length ys"
      "ys ! i = Some x" "\<forall>j<i. ys ! j \<noteq> Some x" by blast
    have "\<forall>j<Suc i. (y # ys) ! j \<noteq> Some x"
      using False i(4) by (auto simp: nth_Cons split: nat.splits)
    with False i show ?thesis by simp
  qed
qed

lemma indexOf_absent: "Some x \<notin> set ys \<Longrightarrow> indexOf ys x = None"
  by (induction ys) auto

lemma count_list_delete:
  "i < length ys \<Longrightarrow> ys ! i = Some x \<Longrightarrow>
   Suc (count_list (ys[i := None]) (Some x)) = count_list ys (Some x)"
proof (induction ys arbitrary: i)
  case Nil
  then show ?case by simp
next
  case (Cons y ys)
  then show ?case by (cases i) auto
qed

lemma recordSentMessages_sent:
  "recordSentMessages st eventId roomId guildId channelId ms = (st', effs, None) \<Longrightarrow>
   set ms \<subseteq> set (sentMessages st') \<and> set (sentMessages st) \<subseteq> set (sentMessages st') \<and> None \<notin> set ms"
proof (induction st eventId roomId guildId channelId ms arbitrary: st' effs
        rule: recordSentMessages.induct)
  case (1 st eventId roomId guildId channelId)
  then show ?case by simp
next
  case (2 st eventId roomId guildId channelId ms)
  then show ?case by simp
next
  case (3 st eventId roomId guildId channelId m ms)
  let ?evt = "\<lparr>MatrixId = eventId @ js '';'' @ roomId, DiscordId = m,
                 GuildId = guildId, ChannelId = channelId\<rparr>"
  let ?st1 = "storeInsert (st\<lparr>sentMessages := sentMessages st @ [Some m]\<rparr>) ?evt"
  obtain st2 effs2 err where r: "recordSentMessages ?st1 eventId roomId guildId channelId ms
      = (st2, effs2, err)" by (cases "recordSentMessages ?st1 eventId roomId guildId channelId ms")
  with 3(2) have e: "st' = st2" "err = None" by (simp_all add: Let_def)
  from 3(1)[OF refl refl, of st2 effs2] r e
  have "set ms \<subseteq> set (sentMessages st2) \<and> set (sentMessages ?st1) \<subseteq> set (sentMessages st2)
        \<and> None \<notin> set ms" by simp
  then show ?case using e by (auto simp: storeInsert_def)
qed

text \<open>
  Claim C4. When the id of an incoming Discord message is in \<open>sentMessages\<close>,
  \<open>OnMessage\<close> deletes the first entry with that id (one occurrence less), makes no
  request to any collaborator and returns; nothing is sent to Matrix.
\<close>

theorem OnMessage_drops_echo:
  assumes "Some (message_id msg) \<in> set (sentMessages st)"
  shows "\<exists>i. indexOf (sentMessages st) (message_id msg) = Some i \<and>
             i < length (sentMessages st) \<and>
             sentMessages st ! i = Some (message_id msg) \<and>
             (\<forall>j<i. sentMessages st ! j \<noteq> Some (message_id msg)) \<and>
             OnMessage env st msg = (st\<lparr>sentMessages := (sentMessages st)[i := None]\<rparr>, [], None) \<and>
             Suc (count_list ((sentMessages st)[i := None]) (Some (message_id msg)))
               = count_list (sentMessages st) (Some (message_id msg))"
proof -
  from indexOf_found[OF assms] obtain i where i: "indexOf (sentMessages st) (message_id msg) = Some i"
    "i < length (sentMessages st)" "sentMessages st ! i = Some (message_id msg)"
    "\<forall>j<i. sentMessages st ! j \<noteq> Some (message_id msg)" by blast
  have "OnMessage env st msg = (st\<lparr>sentMessages := (sentMessages st)[i := None]\<rparr>, [], None)"
    using i(1) by (simp add: OnMessage_def)
  with i count_list_delete[OF i(2,3)] show ?thesis by blast
qed

text \<open>The id recorded by a send to Discord is the id of the echo that is dropped.\<close>

theorem OnMessage_drops_echo_witness:
  "Some (message_id echoMessage)
     \<in> set (sentMessages (fst (recordSentMessages state0 (js ''$ev'') (js ''!room:localhost'')
                                  (js ''123'') (js ''321'') [Some (js ''111'')]))) \<and>
   OnMessage collab0
     (fst (recordSentMessages state0 (js ''$ev'') (js ''!room:localhost'')
             (js ''123'') (js ''321'') [Some (js ''111'')])) echoMessage
   = (\<lparr>sentMessages = [None],
       store = [\<lparr>MatrixId = js ''$ev;!room:localhost'', DiscordId = js ''111'',
                  GuildId = js ''123'', ChannelId = js ''321''\<rparr>]\<rparr>, [], None)"
proof -
  let ?st = "fst (recordSentMessages state0 (js ''$ev'') (js ''!room:localhost'')
                                  (js ''123'') (js ''321'') [Some (js ''111'')])"
  have st: "?st = \<lparr>sentMessages = [Some (js ''111'')],
       store = [\<lparr>MatrixId = js ''$ev;!room:localhost'', DiscordId = js ''111'',
                  GuildId = js ''123'', ChannelId = js ''321''\<rparr>]\<rparr>"
    by (simp add: state0_def storeInsert_def js_def Let_def)
  have h: "Some (message_id echoMessage) \<in> set (sentMessages ?st)"
    unfolding st by (simp add: echoMessage_def)
  from OnMessage_drops_echo[OF h, of collab0] obtain i where
    i: "indexOf (sentMessages ?st) (message_id echoMessage) = Some i"
    and o: "OnMessage collab0 ?st echoMessage
              = (?st\<lparr>sentMessages := (sentMessages ?st)[i := None]\<rparr>, [], None)"
    by blast
  from i have "i = 0" unfolding st by (simp add: echoMessage_def)
  with o have "OnMessage collab0 ?st echoMessage = (?st\<lparr>sentMessages := [None]\<rparr>, [], None)"
    unfolding st by simp
  with h show ?thesis unfolding st by simp
qed

text \<open>
  Claim C10. With \<open>disableDeletionForwarding\<close> set, \<open>ProcessMatrixRedact\<close> returns
  at once: the state is unchanged and no request is made, neither a lookup in the store
  nor the deletion of a Discord message.
\<close>

theorem ProcessMatrixRedact_disabled:
  "disableDeletionForwarding config \<Longrightarrow> ProcessMatrixRedact env config st event = (st, [], None)"
  by (simp add: ProcessMatrixRedact_def)

text \<open>The same redaction with the flag set and unset.\<close>

theorem ProcessMatrixRedact_disabled_witness:
  "disableDeletionForwarding redactConfig \<and>
   ProcessMatrixRedact collab0 redactConfig mappedState redaction0 = (mappedState, [], None) \<and>
   ProcessMatrixRedact collab0 \<lparr>disableDeletionForwarding = False\<rparr> mappedState redaction0
     = (mappedState,
        [StoreGet (js ''$ev;!room:localhost''),
         LookupRoom (js ''123'') (js ''321'') (js ''@alice:localhost''),
         FetchMessage (js ''321'') (js ''111''), DeleteMessage (js ''321'') (js ''111'')], None)"
proof -
  have h: "disableDeletionForwarding redactConfig" by (simp add: redactConfig_def)
  have c: "ProcessMatrixRedact collab0 \<lparr>disableDeletionForwarding = False\<rparr> mappedState redaction0
     = (mappedState,
        [StoreGet (js ''$ev;!room:localhost''),
         LookupRoom (js ''123'') (js ''321'') (js ''@alice:localhost''),
         FetchMessage (js ''321'') (js ''111''), DeleteMessage (js ''321'') (js ''111'')], None)"
    by (simp add: ProcessMatrixRedact_def storeGetByMatrixId_def mappedState_def redaction0_def
        collab0_def js_def Let_def)
  from ProcessMatrixRedact_disabled[OF h, of collab0 mappedState redaction0] h c
  show ?thesis by simp
qed

end
